theory Spec2Isabelle
  imports Complex_Main "HOL-Library.Word"
begin

unbundle bit_operations_syntax

section \<open>JavaScript numbers and their 32-bit operators\<close>

text \<open>
  The emulator is JavaScript: every register and operand is a number, and the bitwise
  operators first convert their operands to a signed 32-bit integer. Integral numbers are
  modelled as \<open>int\<close>; \<open>toInt32\<close> is the conversion (\<open>x|0\<close>), written out at
  every operator that applies it. The shift operators use the low five bits of the count.
\<close>

definition toInt32 :: "int \<Rightarrow> int" where
  "toInt32 x = signed_take_bit 31 x"

definition js_and :: "int \<Rightarrow> int \<Rightarrow> int" where
  "js_and a b = toInt32 a AND toInt32 b"

definition js_or :: "int \<Rightarrow> int \<Rightarrow> int" where
  "js_or a b = toInt32 a OR toInt32 b"

definition js_xor :: "int \<Rightarrow> int \<Rightarrow> int" where
  "js_xor a b = toInt32 a XOR toInt32 b"

definition js_not :: "int \<Rightarrow> int" where
  "js_not a = NOT (toInt32 a)"

definition js_shl :: "int \<Rightarrow> int \<Rightarrow> int" where
  "js_shl a n = toInt32 (push_bit (nat (n mod 32)) (toInt32 a))"

definition js_sar :: "int \<Rightarrow> int \<Rightarrow> int" where
  "js_sar a n = drop_bit (nat (n mod 32)) (toInt32 a)"

text \<open>The remainder operator \<open>%\<close> truncates: the result has the sign of the dividend.\<close>

definition js_rem :: "int \<Rightarrow> int \<Rightarrow> int" where
  "js_rem a b = sgn a * (\<bar>a\<bar> mod \<bar>b\<bar>)"

text \<open>
  The division operator \<open>/\<close> yields a fraction. The quotients formed by the divide helpers
  come from operands of at most 32 bits, where the exact rational and the double agree on
  every comparison and truncation the helpers make; it is modelled as a rational.
  \<open>truncRat\<close> is the truncation towards zero that precedes \<open>toInt32\<close>.
\<close>

definition js_div :: "int \<Rightarrow> int \<Rightarrow> rat" where
  "js_div a b = of_int a / of_int b"

definition truncRat :: "rat \<Rightarrow> int" where
  "truncRat q = (if 0 \<le> q then \<lfloor>q\<rfloor> else \<lceil>q\<rceil>)"

section \<open>Constants of \<open>X86\<close> (x86.js)\<close>

definition MODEL_8086 :: int where "MODEL_8086 = 8086"
definition MODEL_8088 :: int where "MODEL_8088 = 8088"
definition MODEL_80186 :: int where "MODEL_80186 = 80186"
definition MODEL_80188 :: int where "MODEL_80188 = 80188"
definition MODEL_80286 :: int where "MODEL_80286 = 80286"
definition MODEL_80386 :: int where "MODEL_80386 = 80386"

definition ADDR_INVALID :: int where "ADDR_INVALID = -1"

definition EXCEPTION_DIV_ERR :: int where "EXCEPTION_DIV_ERR = 0x00"
definition EXCEPTION_UD_FAULT :: int where "EXCEPTION_UD_FAULT = 0x06"
definition EXCEPTION_DF_FAULT :: int where "EXCEPTION_DF_FAULT = 0x08"
definition EXCEPTION_GP_FAULT :: int where "EXCEPTION_GP_FAULT = 0x0D"

definition PS_CF :: int where "PS_CF = 0x0001"
definition PS_PF :: int where "PS_PF = 0x0004"
definition PS_AF :: int where "PS_AF = 0x0010"
definition PS_ZF :: int where "PS_ZF = 0x0040"
definition PS_SF :: int where "PS_SF = 0x0080"
definition PS_TF :: int where "PS_TF = 0x0100"
definition PS_IF :: int where "PS_IF = 0x0200"
definition PS_DF :: int where "PS_DF = 0x0400"
definition PS_OF :: int where "PS_OF = 0x0800"

definition SEL_RPL :: int where "SEL_RPL = 0x0003"
definition SEL_LDT :: int where "SEL_LDT = 0x0004"
definition SEL_MASK :: int where "SEL_MASK = 0xFFF8"

definition ACC_TYPE_CODE_CONFORMING :: int where "ACC_TYPE_CODE_CONFORMING = 0x1C00"

definition RESULT_BYTE :: int where "RESULT_BYTE = 0x80"
definition RESULT_DWORD :: int where "RESULT_DWORD = toInt32 0x80000000"
definition RESULT_TYPE :: int where "RESULT_TYPE = toInt32 0x80008080"
definition RESULT_CF :: int where "RESULT_CF = 0x01"
definition RESULT_PF :: int where "RESULT_PF = 0x02"
definition RESULT_AF :: int where "RESULT_AF = 0x04"
definition RESULT_ZF :: int where "RESULT_ZF = 0x08"
definition RESULT_SF :: int where "RESULT_SF = 0x10"
definition RESULT_OF :: int where "RESULT_OF = 0x20"
definition RESULT_ALL :: int where "RESULT_ALL = 0x3F"

definition OPFLAG_NOREAD :: int where "OPFLAG_NOREAD = 0x0001"
definition OPFLAG_NOWRITE :: int where "OPFLAG_NOWRITE = 0x0002"
definition OPFLAG_PUSHSP :: int where "OPFLAG_PUSHSP = 0x0200"

definition OPCODE_INT3 :: int where "OPCODE_INT3 = 0xCC"

section \<open>The CPU state\<close>

text \<open>
  The shadow record of a loaded segment register: selector, linear base, access word,
  descriptor privilege level and, for CS, the current privilege level.
\<close>

record segreg =
  seg_sel :: int
  seg_base :: int
  seg_acc :: int
  seg_dpl :: int
  seg_cpl :: int
  seg_fCall :: bool

text \<open>The cycle constants of the CPU model (\<open>this.CYCLES\<close>) that the helpers charge.\<close>

record cycles =
  nOpCyclesArithRR :: int
  nOpCyclesArithRM :: int
  nOpCyclesArithMR :: int
  nOpCyclesDivBR :: int
  nOpCyclesDivBM :: int
  nOpCyclesDivWR :: int
  nOpCyclesDivWM :: int
  nOpCyclesIDivBR :: int
  nOpCyclesIDivBM :: int
  nOpCyclesIDivWR :: int
  nOpCyclesIDivWM :: int
  nOpCyclesIMulBR :: int
  nOpCyclesIMulBM :: int
  nOpCyclesIMulWR :: int
  nOpCyclesIMulWM :: int
  nOpCyclesMulBR :: int
  nOpCyclesMulBM :: int
  nOpCyclesMulWR :: int
  nOpCyclesMulWM :: int
  nOpCyclesPushReg :: int
  nOpCyclesPushMem :: int
  nOpCyclesLEA :: int
  nOpCyclesInt :: int

text \<open>
  The fields of the CPU object (\<open>this\<close>) that the opcode helpers read and write. The stack
  pointer, the bus and the descriptor tables are reached only through methods that are
  parameters of the helpers (see \<open>env\<close> below); \<open>regESP\<close>, \<open>segSS\<close>, \<open>bus\<close> and
  \<open>fStopped\<close> are the fields those methods work on in the real-mode environment of the
  examples.
\<close>

text \<open>
  Modelled from the spec: the fields \<open>segFS\<close> and \<open>segGS\<close>. The register file of the
  specification has FS and GS from the 80386 on; x86.js mentions neither, and no helper
  modelled here reads or writes them. They are in the record so that what a helper leaves
  undone to them can be stated.
\<close>

record cpu =
  model :: int
  regEAX :: int
  regEDX :: int
  regESP :: int
  regMD16 :: int
  regMD32 :: int
  regLIP :: int
  opLIP :: int
  regEA :: int
  regEAWrite :: int
  opFlags :: int
  nFault :: int
  nStepCycles :: int
  nShiftCountMask :: int
  dataSize :: int
  regPS :: int
  resultDst :: int
  resultSrc :: int
  resultArith :: int
  resultLogic :: int
  resultType :: int
  segCS :: segreg
  segDS :: segreg
  segES :: segreg
  segFS :: segreg
  segGS :: segreg
  segSS :: segreg
  CYCLES :: cycles
  cIntReturn :: int
  fComplete :: bool
  fRunning :: bool
  fStopped :: bool
  bus :: "int \<Rightarrow> int"

text \<open>
  The methods of the CPU object, of its segment registers and of the debugger that the
  helpers call and that are not among the sources. They are parameters of the model: every
  helper below takes an \<open>env\<close>, and a theorem that does not fix the environment holds for
  every implementation of these methods. \<open>setCSIP\<close> returns \<open>None\<close> for the source's
  \<open>null\<close> (the load of CS failed), otherwise whether a stack switch occurred.
  \<open>loadIDT\<close> returns the new linear instruction pointer or \<open>ADDR_INVALID\<close>.
\<close>

datatype segid = SEG_DS | SEG_ES

record env =
  getPS :: "cpu \<Rightarrow> int"
  getSP :: "cpu \<Rightarrow> int"
  setSP :: "int \<Rightarrow> cpu \<Rightarrow> cpu"
  pushWord :: "int \<Rightarrow> cpu \<Rightarrow> cpu"
  popWord :: "cpu \<Rightarrow> int \<times> cpu"
  setCSIP :: "int \<Rightarrow> int \<Rightarrow> bool \<Rightarrow> cpu \<Rightarrow> bool option \<times> cpu"
  loadIDT :: "int \<Rightarrow> cpu \<Rightarrow> int \<times> cpu"
  segLoad :: "segid \<Rightarrow> int \<Rightarrow> cpu \<Rightarrow> cpu"
  PREFETCH :: bool
  flushPrefetch :: "int \<Rightarrow> cpu \<Rightarrow> cpu"
  checkIntReturn :: "int \<Rightarrow> cpu \<Rightarrow> cpu"
  resetRegs :: "cpu \<Rightarrow> cpu"
  getByteDirect :: "int \<Rightarrow> cpu \<Rightarrow> int"
  messageEnabled :: "int \<Rightarrow> cpu \<Rightarrow> bool"
  printMessage :: "int \<Rightarrow> cpu \<Rightarrow> bool \<times> cpu"
  dbgStopCPU :: "cpu \<Rightarrow> cpu"
  stopCPU :: "cpu \<Rightarrow> cpu"
  Messages_FAULT :: int
  Messages_CPU :: int
  Messages_HALT :: int
  Messages_WARN :: int

text \<open>
  Modelled from the spec: \<open>getCS\<close>, \<open>getIP\<close> and \<open>setIP\<close> of the CPU object are not
  among the sources. The instruction pointer is an offset within CS; the linear instruction
  pointer \<open>regLIP\<close> (of which \<open>opLIP\<close> is the snapshot taken when an instruction starts)
  is the base of CS plus that offset.
\<close>

definition getCS :: "cpu \<Rightarrow> int" where
  "getCS s = seg_sel (segCS s)"

definition getIP :: "cpu \<Rightarrow> int" where
  "getIP s = regLIP s - seg_base (segCS s)"

definition setIP :: "int \<Rightarrow> cpu \<Rightarrow> cpu" where
  "setIP off s = s\<lparr>regLIP := seg_base (segCS s) + off\<rparr>"

section \<open>The flag engine\<close>

text \<open>
  Modelled from the spec: the flag accessors of the CPU object (\<open>getCF\<close>, \<open>setCF\<close>,
  \<open>clearCF\<close>, ..., \<open>setArithResult\<close>) are not among the sources. The data model gives them:
  a flag whose bit is set in \<open>resultType\<close> is cached and computed by its formula from the
  result words, under the width mask of \<open>resultType\<close> (BYTE, WORD or DWORD); a flag
  whose bit is clear is stored directly in \<open>regPS\<close>. The same formulas stand in the
  comment of \<open>X86.RESULT\<close>.
\<close>

definition resultSize :: "cpu \<Rightarrow> int" where
  "resultSize s = js_and (resultType s) RESULT_TYPE"

definition parity8 :: "int \<Rightarrow> bool" where
  "parity8 b = even (length (filter (bit b) [0, 1, 2, 3, 4, 5, 6, 7]))"

definition getCF :: "cpu \<Rightarrow> bool" where
  "getCF s =
     (if js_and (resultType s) RESULT_CF \<noteq> 0
      then js_and (js_xor (resultDst s)
                    (js_and (js_xor (resultDst s) (resultSrc s))
                            (js_xor (resultSrc s) (resultArith s))))
                  (resultSize s) \<noteq> 0
      else js_and (regPS s) PS_CF \<noteq> 0)"

definition getPF :: "cpu \<Rightarrow> bool" where
  "getPF s =
     (if js_and (resultType s) RESULT_PF \<noteq> 0
      then parity8 (js_and (resultLogic s) 0xff)
      else js_and (regPS s) PS_PF \<noteq> 0)"

definition getAF :: "cpu \<Rightarrow> bool" where
  "getAF s =
     (if js_and (resultType s) RESULT_AF \<noteq> 0
      then js_and (js_xor (resultArith s) (js_xor (resultDst s) (resultSrc s))) 0x0010 \<noteq> 0
      else js_and (regPS s) PS_AF \<noteq> 0)"

definition getZF :: "cpu \<Rightarrow> bool" where
  "getZF s =
     (if js_and (resultType s) RESULT_ZF \<noteq> 0
      then js_and (resultLogic s) (js_or (resultSize s - 1) (resultSize s)) = 0
      else js_and (regPS s) PS_ZF \<noteq> 0)"

definition getSF :: "cpu \<Rightarrow> bool" where
  "getSF s =
     (if js_and (resultType s) RESULT_SF \<noteq> 0
      then js_and (resultLogic s) (resultSize s) \<noteq> 0
      else js_and (regPS s) PS_SF \<noteq> 0)"

definition getOF :: "cpu \<Rightarrow> bool" where
  "getOF s =
     (if js_and (resultType s) RESULT_OF \<noteq> 0
      then js_and (js_and (js_xor (resultDst s) (resultArith s))
                          (js_xor (resultSrc s) (resultArith s)))
                  (resultSize s) \<noteq> 0
      else js_and (regPS s) PS_OF \<noteq> 0)"


text \<open>Storing a flag directly: its cache bit is dropped and its bit of \<open>regPS\<close> written.\<close>

definition storeFlag :: "int \<Rightarrow> int \<Rightarrow> bool \<Rightarrow> cpu \<Rightarrow> cpu" where
  "storeFlag rbit psbit v s =
     s\<lparr>resultType := js_and (resultType s) (js_not rbit),
       regPS := (if v then js_or (regPS s) psbit else js_and (regPS s) (js_not psbit))\<rparr>"

definition setZF :: "cpu \<Rightarrow> cpu" where "setZF = storeFlag RESULT_ZF PS_ZF True"
definition clearZF :: "cpu \<Rightarrow> cpu" where "clearZF = storeFlag RESULT_ZF PS_ZF False"

text \<open>
  Before the result words are replaced, every flag cached by the old \<open>resultType\<close> and
  absent from the new type is computed and written to \<open>regPS\<close>.
\<close>

definition flushFlag :: "int \<Rightarrow> int \<Rightarrow> int \<Rightarrow> bool \<Rightarrow> int \<Rightarrow> int" where
  "flushFlag type rbit psbit v ps =
     (if js_and type rbit = 0
      then (if v then js_or ps psbit else js_and ps (js_not psbit))
      else ps)"

definition flushFlags :: "int \<Rightarrow> cpu \<Rightarrow> int" where
  "flushFlags type s =
     flushFlag type RESULT_CF PS_CF (getCF s)
      (flushFlag type RESULT_PF PS_PF (getPF s)
        (flushFlag type RESULT_AF PS_AF (getAF s)
          (flushFlag type RESULT_ZF PS_ZF (getZF s)
            (flushFlag type RESULT_SF PS_SF (getSF s)
              (flushFlag type RESULT_OF PS_OF (getOF s) (regPS s))))))"

text \<open>
  \<open>setArithResult(dst, src, value, type)\<close> for an added result (the fifth argument,
  \<open>fSubtract\<close>, is absent in the calls modelled here).
\<close>

definition setArithResult :: "int \<Rightarrow> int \<Rightarrow> int \<Rightarrow> int \<Rightarrow> cpu \<Rightarrow> cpu" where
  "setArithResult dst src val type s =
     s\<lparr>regPS := flushFlags type s,
       resultDst := dst, resultSrc := src,
       resultArith := val, resultLogic := val,
       resultType := type\<rparr>"

section \<open>Arithmetic helpers\<close>

definition cyclesArith :: "cpu \<Rightarrow> int" where
  "cyclesArith s =
     (if regEAWrite s = ADDR_INVALID
      then (if regEA s = ADDR_INVALID then nOpCyclesArithRR (CYCLES s)
            else nOpCyclesArithRM (CYCLES s))
      else nOpCyclesArithMR (CYCLES s))"

definition fnADDb :: "int \<Rightarrow> int \<Rightarrow> cpu \<Rightarrow> int \<times> cpu" where
  "fnADDb dst src s =
     (let b = toInt32 (dst + src);
          s1 = setArithResult dst src b (js_or RESULT_BYTE RESULT_ALL) s;
          s2 = s1\<lparr>nStepCycles := nStepCycles s1 - cyclesArith s1\<rparr>
      in (js_and b 0xff, s2))"

text \<open>
  The helpers below leave out the calls of \<open>traceLog\<close> (compiled in only under
  \<open>DEBUG && DEBUGGER\<close>) and of \<open>assert\<close>: both only report.
\<close>

definition fnARPL :: "int \<Rightarrow> int \<Rightarrow> cpu \<Rightarrow> int \<times> cpu" where
  "fnARPL dst src s =
     (let s1 = s\<lparr>nStepCycles :=
                 nStepCycles s - (10 + (if regEA s = ADDR_INVALID then 0 else 1))\<rparr>
      in if js_and dst SEL_RPL < js_and src SEL_RPL
         then (js_or (js_and dst (js_not SEL_RPL)) (js_and src SEL_RPL), setZF s1)
         else (dst, clearZF s1))"




section \<open>Stack and control-flow helpers\<close>

definition fnPUSHw :: "env \<Rightarrow> int \<Rightarrow> cpu \<Rightarrow> int \<times> cpu" where
  "fnPUSHw e dst s =
     (let w = dst;
          (dst1, w1) =
             (if js_and (opFlags s) OPFLAG_PUSHSP \<noteq> 0
              then (let d = js_and (dst - 2) 0xffff
                    in (d, if model s < MODEL_80286 then d else w))
              else (dst, w));
          s1 = pushWord e w1 s;
          s2 = s1\<lparr>nStepCycles := nStepCycles s1 -
                  (if regEA s1 = ADDR_INVALID then nOpCyclesPushReg (CYCLES s1)
                   else nOpCyclesPushMem (CYCLES s1))\<rparr>
      in (dst1, s2\<lparr>opFlags := js_or (opFlags s2) OPFLAG_NOWRITE\<rparr>))"

text \<open>
  \<open>X86.opUndefined\<close>, the handler that \<open>fnLEA\<close> calls for a register operand, is not
  among the sources; it is the first argument of \<open>fnLEA\<close>.
\<close>

definition fnLEA :: "(cpu \<Rightarrow> cpu) \<Rightarrow> int \<Rightarrow> cpu \<Rightarrow> int \<times> cpu" where
  "fnLEA opUndefined dst s =
     (if regEA s = ADDR_INVALID then (dst, opUndefined s)
      else (regEA s, s\<lparr>nStepCycles := nStepCycles s - nOpCyclesLEA (CYCLES s)\<rparr>))"


definition fnINT :: "env \<Rightarrow> int \<Rightarrow> int option \<Rightarrow> int \<Rightarrow> cpu \<Rightarrow> cpu" where
  "fnINT e nIDT nError nCycles s =
     (let s1 = s\<lparr>nStepCycles := nStepCycles s - (nOpCyclesInt (CYCLES s) + nCycles)\<rparr>;
          s2 = s1\<lparr>segCS := (segCS s1)\<lparr>seg_fCall := True\<rparr>\<rparr>;
          regPS = getPS e s2;
          regCS = getCS s2;
          regEIP = getIP s2
      in case loadIDT e nIDT s2 of
           (addr, s3) \<Rightarrow>
             if addr \<noteq> ADDR_INVALID
             then (let s4 = s3\<lparr>regLIP := addr\<rparr>;
                       s5 = (if PREFETCH e then flushPrefetch e (regLIP s4) s4 else s4);
                       s6 = pushWord e regPS s5;
                       s7 = pushWord e regCS s6;
                       s8 = pushWord e regEIP s7;
                       s9 = (case nError of None \<Rightarrow> s8 | Some c \<Rightarrow> pushWord e c s8)
                   in s9\<lparr>nFault := -1\<rparr>)
             else s3)"

definition fnDIVOverflow :: "env \<Rightarrow> cpu \<Rightarrow> cpu" where
  "fnDIVOverflow e s =
     fnINT e EXCEPTION_DIV_ERR None 2 (setIP (opLIP s - seg_base (segCS s)) s)"

section \<open>Divide helpers\<close>

text \<open>
  The divisor is the operand \<open>dst\<close>; the dividend is AX (byte forms) or DX:AX (word forms).
  \<open>!dst\<close> holds exactly for a zero divisor. In \<open>fnIDIVb\<close> the relational operator binds
  tighter than \<open>&\<close>, so the test is \<open>(lQuotient > ((lQuotient << 24) >> 24)) & 0xffff\<close>.
\<close>

definition fnDIVb :: "env \<Rightarrow> int \<Rightarrow> cpu \<Rightarrow> int \<times> cpu" where
  "fnDIVb e dst s =
     (if dst = 0 then (dst, fnDIVOverflow e s)
      else (let uQuotient = js_div (regEAX s) dst
            in if uQuotient > 0xff then (dst, fnDIVOverflow e s)
               else (let v = js_or (js_and (truncRat uQuotient) 0xff)
                                   (js_shl (js_and (js_rem (regEAX s) dst) 0xff) 8);
                         s1 = s\<lparr>regEAX := v, regMD16 := v\<rparr>;
                         s2 = s1\<lparr>nStepCycles := nStepCycles s1 -
                                 (if regEA s1 = ADDR_INVALID then nOpCyclesDivBR (CYCLES s1)
                                  else nOpCyclesDivBM (CYCLES s1))\<rparr>
                     in (dst, s2\<lparr>opFlags := js_or (opFlags s2) OPFLAG_NOWRITE\<rparr>))))"

definition fnDIVw :: "env \<Rightarrow> int \<Rightarrow> cpu \<Rightarrow> int \<times> cpu" where
  "fnDIVw e dst s =
     (if dst = 0 then (dst, fnDIVOverflow e s)
      else (let src = regEAX s + regEDX s * 0x10000;
                uQuotient = \<lfloor>js_div src dst\<rfloor>
            in if uQuotient \<ge> 0x10000 then (dst, fnDIVOverflow e s)
               else (let s1 = s\<lparr>regEAX := js_and uQuotient 0xffff,
                                  regMD16 := js_and uQuotient 0xffff\<rparr>;
                         s1' = s1\<lparr>regEDX := js_and (js_rem src dst) 0xffff,
                                   regMD32 := js_and (js_rem src dst) 0xffff\<rparr>;
                         s2 = s1'\<lparr>nStepCycles := nStepCycles s1' -
                                 (if regEA s1' = ADDR_INVALID then nOpCyclesDivWR (CYCLES s1')
                                  else nOpCyclesDivWM (CYCLES s1'))\<rparr>
                     in (dst, s2\<lparr>opFlags := js_or (opFlags s2) OPFLAG_NOWRITE\<rparr>))))"

definition fnIDIVb :: "env \<Rightarrow> int \<Rightarrow> cpu \<Rightarrow> int \<times> cpu" where
  "fnIDIVb e dst s =
     (if dst = 0 then (dst, fnDIVOverflow e s)
      else (let lQuotient = js_div (js_sar (js_shl (regEAX s) 16) 16) (js_sar (js_shl dst 24) 24)
            in if js_and (if lQuotient > of_int (js_sar (js_shl (truncRat lQuotient) 24) 24)
                          then 1 else 0) 0xffff \<noteq> 0
               then (dst, fnDIVOverflow e s)
               else (let v = js_or (js_and (truncRat lQuotient) 0xff)
                                   (js_shl (js_and (js_rem (js_sar (js_shl (regEAX s) 16) 16)
                                                           (js_sar (js_shl dst 24) 24)) 0xff) 8);
                         s1 = s\<lparr>regEAX := v, regMD16 := v\<rparr>;
                         s2 = s1\<lparr>nStepCycles := nStepCycles s1 -
                                 (if regEA s1 = ADDR_INVALID then nOpCyclesIDivBR (CYCLES s1)
                                  else nOpCyclesIDivBM (CYCLES s1))\<rparr>
                     in (dst, s2\<lparr>opFlags := js_or (opFlags s2) OPFLAG_NOWRITE\<rparr>))))"

definition fnIDIVw :: "env \<Rightarrow> int \<Rightarrow> cpu \<Rightarrow> int \<times> cpu" where
  "fnIDIVw e dst s =
     (if dst = 0 then (dst, fnDIVOverflow e s)
      else (let lDivisor = js_sar (js_shl dst 16) 16;
                src = js_or (js_shl (regEDX s) 16) (regEAX s);
                lQuotient = \<lfloor>js_div src lDivisor\<rfloor>
            in if lQuotient \<noteq> js_sar (js_shl (js_and lQuotient 0xffff) 16) 16
               then (dst, fnDIVOverflow e s)
               else (let s1 = s\<lparr>regEAX := js_and lQuotient 0xffff,
                                  regMD16 := js_and lQuotient 0xffff\<rparr>;
                         s1' = s1\<lparr>regEDX := js_and (js_rem src lDivisor) 0xffff,
                                   regMD32 := js_and (js_rem src lDivisor) 0xffff\<rparr>;
                         s2 = s1'\<lparr>nStepCycles := nStepCycles s1' -
                                 (if regEA s1' = ADDR_INVALID then nOpCyclesIDivWR (CYCLES s1')
                                  else nOpCyclesIDivWM (CYCLES s1'))\<rparr>
                     in (dst, s2\<lparr>opFlags := js_or (opFlags s2) OPFLAG_NOWRITE\<rparr>))))"

section \<open>Rotate helpers\<close>










section \<open>Far return\<close>

text \<open>
  The test that \<open>fnRETF\<close> applies to DS and to ES after a return to an outer privilege
  level, and the load of the null selector that follows it.
\<close>

definition retfMustNull :: "segreg \<Rightarrow> cpu \<Rightarrow> bool" where
  "retfMustNull seg s \<longleftrightarrow>
     js_and (seg_sel seg) SEL_MASK \<noteq> 0 \<and> seg_dpl seg < seg_cpl (segCS s) \<and>
     js_and (seg_acc seg) ACC_TYPE_CODE_CONFORMING \<noteq> ACC_TYPE_CODE_CONFORMING"

definition fnRETF :: "env \<Rightarrow> int \<Rightarrow> cpu \<Rightarrow> cpu" where
  "fnRETF e n s =
     (case popWord e s of
        (regEIP, s1) \<Rightarrow>
      case popWord e s1 of
        (regCS, s2) \<Rightarrow>
      let n1 = js_shl n (js_sar (dataSize s2) 2);
          s3 = (if n1 \<noteq> 0 then setSP e (getSP e s2 + n1) s2 else s2)
      in case setCSIP e regEIP regCS False s3 of
        (r, s4) \<Rightarrow>
      let s8 = (if r = Some True
                then (let s5 = (if n1 \<noteq> 0 then setSP e (getSP e s4 + n1) s4 else s4);
                          s6 = (if retfMustNull (segDS s5) s5 then segLoad e SEG_DS 0 s5 else s5);
                          s7 = (if retfMustNull (segES s6) s6 then segLoad e SEG_ES 0 s6 else s6)
                      in s7)
                else s4)
      in if n1 = 2 \<and> cIntReturn s8 \<noteq> 0 then checkIntReturn e (regLIP s8) s8 else s8)"

section \<open>Fault dispatch\<close>

text \<open>
  \<open>fnFaultMessage\<close> without the text of the message, which only the debugger displays.
  The optional argument \<open>fHalt\<close> is a truth value (absent means false), the optional error
  code an \<open>int option\<close>. The result is the source's \<open>fHalt\<close>: true blocks the dispatch.
\<close>

definition fnFaultMessage :: "env \<Rightarrow> int \<Rightarrow> int option \<Rightarrow> bool \<Rightarrow> cpu \<Rightarrow> bool \<times> cpu" where
  "fnFaultMessage e nFault' nError fHalt s =
     (let bitsMessage = Messages_FAULT e;
          bOpcode = getByteDirect e (regLIP s) s;
          (fHalt1, bits1) =
             (if bOpcode = OPCODE_INT3 then (False, js_or bitsMessage (Messages_CPU e))
              else (fHalt, bitsMessage));
          fHalt2 = (if regLIP s \<ge> 0x0F0000 \<and> regLIP s \<le> 0x0FFFFF then False else fHalt1);
          fHalt3 = (if messageEnabled e (js_or bits1 (Messages_HALT e)) s then True else fHalt2)
      in if messageEnabled e bits1 s \<or> fHalt3
         then (let fRun = fRunning s
               in case printMessage e bits1 s of
                    (printed, s1) \<Rightarrow>
                      if printed
                      then (if fHalt3 then (fRun, dbgStopCPU e s1) else (fHalt3, s1))
                      else (fHalt3, stopCPU e s1))
         else (fHalt3, s))"

definition fnFault :: "env \<Rightarrow> int \<Rightarrow> int option \<Rightarrow> bool \<Rightarrow> cpu \<Rightarrow> cpu" where
  "fnFault e nFault' nError fHalt s =
     (if \<not> fComplete s
      then (let s1 = snd (printMessage e (Messages_WARN e) s)
            in setIP (opLIP s1 - seg_base (segCS s1)) s1)
      else if model s \<ge> MODEL_80186 \<and> \<not> nFault s < 0 \<and> \<not> nFault s \<noteq> EXCEPTION_DF_FAULT
      then resetRegs e (snd (fnFaultMessage e (-1) (Some 0) fHalt s))
      else (let (s1, nFault1, nError1, fDispatch) =
                  (if model s \<ge> MODEL_80186
                   then (if nFault s < 0
                         then (setIP (opLIP s - seg_base (segCS s)) s, nFault', nError, True)
                         else (s, EXCEPTION_DF_FAULT, Some 0, True))
                   else (s, nFault', nError, False))
            in case fnFaultMessage e nFault1 nError1 fHalt s1 of
                 (halt, s2) \<Rightarrow>
                   let fDispatch1 = (if halt then False else fDispatch);
                       s3 = (if fDispatch1 then fnINT e nFault1 nError1 0 (s2\<lparr>nFault := nFault1\<rparr>)
                             else s2)
                   in s3\<lparr>opFlags :=
                          js_and (opFlags s3) (js_not (js_or OPFLAG_NOREAD OPFLAG_NOWRITE))\<rparr>))"

section \<open>The reference formulas of the flags\<close>

text \<open>
  The formulas of the data model, on the operands \<open>D\<close>, \<open>S\<close>, the arithmetic result
  \<open>A\<close>, the logical result \<open>L\<close> and the width mask \<open>type\<close> (0x80 for a byte), written
  with the bitwise operators of unbounded integers. PF is the complemented XOR-reduction of
  the low eight bits.
\<close>

definition spec_CF :: "int \<Rightarrow> int \<Rightarrow> int \<Rightarrow> int \<Rightarrow> bool" where
  "spec_CF D S A type \<longleftrightarrow> ((D XOR ((D XOR S) AND (S XOR A))) AND type) \<noteq> 0"

definition spec_PF :: "int \<Rightarrow> bool" where
  "spec_PF L \<longleftrightarrow>
     \<not> (bit L 0 \<noteq> (bit L 1 \<noteq> (bit L 2 \<noteq> (bit L 3 \<noteq>
         (bit L 4 \<noteq> (bit L 5 \<noteq> (bit L 6 \<noteq> bit L 7)))))))"

definition spec_AF :: "int \<Rightarrow> int \<Rightarrow> int \<Rightarrow> bool" where
  "spec_AF D S A \<longleftrightarrow> ((A XOR (D XOR S)) AND 0x10) \<noteq> 0"

definition spec_ZF :: "int \<Rightarrow> int \<Rightarrow> bool" where
  "spec_ZF L type \<longleftrightarrow> (L AND ((type - 1) OR type)) = 0"

definition spec_SF :: "int \<Rightarrow> int \<Rightarrow> bool" where
  "spec_SF L type \<longleftrightarrow> (L AND type) \<noteq> 0"

definition spec_OF :: "int \<Rightarrow> int \<Rightarrow> int \<Rightarrow> int \<Rightarrow> bool" where
  "spec_OF D S A type \<longleftrightarrow> (((D XOR A) AND (S XOR A)) AND type) \<noteq> 0"

text \<open>The value of a byte and of a word read as two's complement.\<close>

definition sbyte :: "int \<Rightarrow> int" where
  "sbyte x = (if 128 \<le> x mod 256 then x mod 256 - 256 else x mod 256)"


section \<open>A real-mode environment and a state for the examples\<close>

text \<open>
  Modelled from the spec: the methods of \<open>env\<close> for a CPU in real mode, as far as the
  examples need them. A push decrements SP by two and stores the word at SS:SP through the
  bus, low byte first; a pop is its inverse. A segment load in real mode sets the base to
  sixteen times the selector; it cannot fail and switches no stack. The interrupt vector
  \<open>n\<close> is the pair (offset, segment) at linear address \<open>4 * n\<close>. PS as read is the
  directly stored bits with every cached flag computed, and bit 1 set. Reset puts CS:IP at
  0xF000:0xFFF0 from the 80286 on and at 0xFFFF:0x0000 before. No message of the debugger
  is enabled.
\<close>

definition real_getPS :: "cpu \<Rightarrow> int" where
  "real_getPS s = js_or (flushFlags 0 s) 0x0002"

definition real_pushWord :: "int \<Rightarrow> cpu \<Rightarrow> cpu" where
  "real_pushWord w s =
     (let sp = js_and (regESP s - 2) 0xffff;
          a = seg_base (segSS s) + sp
      in s\<lparr>regESP := sp,
           bus := (bus s)(a := js_and w 0xff, a + 1 := js_and (js_sar w 8) 0xff)\<rparr>)"

definition real_popWord :: "cpu \<Rightarrow> int \<times> cpu" where
  "real_popWord s =
     (let a = seg_base (segSS s) + regESP s
      in (bus s a + 256 * bus s (a + 1), s\<lparr>regESP := js_and (regESP s + 2) 0xffff\<rparr>))"

definition real_setCSIP :: "int \<Rightarrow> int \<Rightarrow> bool \<Rightarrow> cpu \<Rightarrow> bool option \<times> cpu" where
  "real_setCSIP off sel fCall s =
     (Some False,
      s\<lparr>segCS := (segCS s)\<lparr>seg_sel := sel, seg_base := sel * 16, seg_fCall := fCall\<rparr>,
        regLIP := sel * 16 + off\<rparr>)"

definition real_loadIDT :: "int \<Rightarrow> cpu \<Rightarrow> int \<times> cpu" where
  "real_loadIDT n s =
     (let a = n * 4;
          off = bus s a + 256 * bus s (a + 1);
          sel = bus s (a + 2) + 256 * bus s (a + 3)
      in (sel * 16 + off, s\<lparr>segCS := (segCS s)\<lparr>seg_sel := sel, seg_base := sel * 16\<rparr>\<rparr>))"

definition real_segLoad :: "segid \<Rightarrow> int \<Rightarrow> cpu \<Rightarrow> cpu" where
  "real_segLoad g sel s =
     (case g of
        SEG_DS \<Rightarrow> s\<lparr>segDS := (segDS s)\<lparr>seg_sel := sel, seg_base := sel * 16\<rparr>\<rparr>
      | SEG_ES \<Rightarrow> s\<lparr>segES := (segES s)\<lparr>seg_sel := sel, seg_base := sel * 16\<rparr>\<rparr>)"

definition real_resetRegs :: "cpu \<Rightarrow> cpu" where
  "real_resetRegs s =
     (if model s \<ge> MODEL_80286
      then s\<lparr>segCS := (segCS s)\<lparr>seg_sel := 0xF000, seg_base := 0xF0000\<rparr>,
             regLIP := 0xFFFF0, regPS := 0x0002, resultType := 0, opFlags := 0, nFault := -1\<rparr>
      else s\<lparr>segCS := (segCS s)\<lparr>seg_sel := 0xFFFF, seg_base := 0xFFFF0\<rparr>,
             regLIP := 0xFFFF0, regPS := 0xF002, resultType := 0, opFlags := 0, nFault := -1\<rparr>)"

definition env0 :: env where
  "env0 =
     \<lparr>getPS = real_getPS, getSP = regESP, setSP = (\<lambda>v s. s\<lparr>regESP := js_and v 0xffff\<rparr>),
      pushWord = real_pushWord, popWord = real_popWord, setCSIP = real_setCSIP,
      loadIDT = real_loadIDT, segLoad = real_segLoad,
      PREFETCH = False, flushPrefetch = (\<lambda>a s. s), checkIntReturn = (\<lambda>a s. s),
      resetRegs = real_resetRegs,
      getByteDirect = (\<lambda>a s. bus s a),
      messageEnabled = (\<lambda>b s. False), printMessage = (\<lambda>b s. (False, s)),
      dbgStopCPU = (\<lambda>s. s\<lparr>fStopped := True\<rparr>), stopCPU = (\<lambda>s. s\<lparr>fStopped := True\<rparr>),
      Messages_FAULT = 0x00000040, Messages_CPU = 0x00000001,
      Messages_HALT = 0x20000000, Messages_WARN = 0x40000000\<rparr>"

definition seg0 :: segreg where
  "seg0 = \<lparr>seg_sel = 0, seg_base = 0, seg_acc = 0, seg_dpl = 0, seg_cpl = 0, seg_fCall = False\<rparr>"

text \<open>
  An 8086 about to run the instruction at 1000:0003 (two bytes long), the stack at
  2000:0100, no fault in flight and no flag cached. The interrupt vector table sends
  vector \<open>n\<close> to 0000:\<open>n\<close>00; the rest of memory is zero.
\<close>

definition cpu0 :: cpu where
  "cpu0 =
     \<lparr>model = MODEL_8086, regEAX = 0, regEDX = 0, regESP = 0x100, regMD16 = 0, regMD32 = 0,
      regLIP = 0x10005, opLIP = 0x10003, regEA = ADDR_INVALID, regEAWrite = ADDR_INVALID,
      opFlags = 0, nFault = -1, nStepCycles = 1000, nShiftCountMask = 0xff, dataSize = 2,
      regPS = 0xF002, resultDst = 0, resultSrc = 0, resultArith = 0, resultLogic = 0,
      resultType = 0,
      segCS = seg0\<lparr>seg_sel := 0x1000, seg_base := 0x10000\<rparr>,
      segDS = seg0, segES = seg0, segFS = seg0, segGS = seg0,
      segSS = seg0\<lparr>seg_sel := 0x2000, seg_base := 0x20000\<rparr>,
      CYCLES =
        \<lparr>nOpCyclesArithRR = 3, nOpCyclesArithRM = 9, nOpCyclesArithMR = 16,
         nOpCyclesDivBR = 80, nOpCyclesDivBM = 86, nOpCyclesDivWR = 144, nOpCyclesDivWM = 154,
         nOpCyclesIDivBR = 101, nOpCyclesIDivBM = 107, nOpCyclesIDivWR = 165,
         nOpCyclesIDivWM = 171, nOpCyclesIMulBR = 80, nOpCyclesIMulBM = 86,
         nOpCyclesIMulWR = 128, nOpCyclesIMulWM = 134, nOpCyclesMulBR = 70,
         nOpCyclesMulBM = 76, nOpCyclesMulWR = 118, nOpCyclesMulWM = 128,
         nOpCyclesPushReg = 11, nOpCyclesPushMem = 16, nOpCyclesLEA = 2, nOpCyclesInt = 51\<rparr>,
      cIntReturn = 0, fComplete = True, fRunning = True, fStopped = False,
      bus = (\<lambda>a. if 0 \<le> a \<and> a < 1024 \<and> a mod 4 = 1 then a div 4 else 0)\<rparr>"

text \<open>The same machine as an 80286 in real mode.\<close>

definition cpu286 :: cpu where
  "cpu286 = cpu0\<lparr>model := MODEL_80286, nShiftCountMask := 0x1f\<rparr>"

text \<open>The same machine as an 80386 in real mode.\<close>

definition cpu386 :: cpu where
  "cpu386 = cpu0\<lparr>model := MODEL_80386, nShiftCountMask := 0x1f\<rparr>"



text \<open>
  Modelled from the spec: a load of CS in protected mode, reduced to what the examples of a
  far return need. The new CPL is the RPL of the selector, and the result tells whether the
  privilege level was lowered, which is when the return switches stacks. A load of the null
  selector into a data segment register clears its selector; \<open>real_segLoad\<close> does that.
\<close>

definition outer_setCSIP :: "int \<Rightarrow> int \<Rightarrow> bool \<Rightarrow> cpu \<Rightarrow> bool option \<times> cpu" where
  "outer_setCSIP off sel fCall s =
     (let cplNew = js_and sel SEL_RPL
      in (Some (seg_cpl (segCS s) < cplNew),
          s\<lparr>segCS := (segCS s)\<lparr>seg_sel := sel, seg_dpl := cplNew, seg_cpl := cplNew,
                                seg_fCall := fCall\<rparr>,
            regLIP := seg_base (segCS s) + off\<rparr>))"

definition env_outer :: env where
  "env_outer = env0\<lparr>setCSIP := outer_setCSIP\<rparr>"

text \<open>
  An 80386 at CPL 0 about to return to 001B:0020 (RPL 3): DS, FS and GS hold selectors of
  writable data segments of DPL 0, ES one of DPL 3.
\<close>

definition cpu_ret :: cpu where
  "cpu_ret =
     cpu386\<lparr>segDS := seg0\<lparr>seg_sel := 0x10, seg_acc := 0x9200, seg_dpl := 0\<rparr>,
            segES := seg0\<lparr>seg_sel := 0x23, seg_acc := 0xF200, seg_dpl := 3\<rparr>,
            segFS := seg0\<lparr>seg_sel := 0x10, seg_acc := 0x9200, seg_dpl := 0\<rparr>,
            segGS := seg0\<lparr>seg_sel := 0x18, seg_acc := 0x9200, seg_dpl := 0\<rparr>,
            bus := (bus cpu386)(0x20100 := 0x20, 0x20102 := 0x1B)\<rparr>"

text \<open>
  The null selectors are the four that name entry 0 of the global descriptor table: table
  index (\<open>X86.SEL.MASK\<close>) and table indicator (\<open>X86.SEL.LDT\<close>) zero, any RPL. The test
  in \<open>fnRETF\<close> masks the selector with \<open>X86.SEL.MASK\<close> alone.
\<close>

definition nullSelector :: "int \<Rightarrow> bool" where
  "nullSelector sel \<longleftrightarrow> js_and sel (js_or SEL_MASK SEL_LDT) = 0"

text \<open>The same state with DS holding selector 0x0004, entry 0 of the local descriptor table.\<close>

definition cpu_ret_ldt0 :: cpu where
  "cpu_ret_ldt0 = cpu_ret\<lparr>segDS := seg0\<lparr>seg_sel := 0x04, seg_acc := 0x9200, seg_dpl := 0\<rparr>\<rparr>"

text \<open>
  What the statement on far returns asks of the methods it does not fix: a load of the null
  selector into DS or ES clears the selector of that register and leaves CS and the other
  data segment registers as they were, and the hook \<open>checkIntReturn\<close> leaves all of them.
\<close>

definition nullLoadFrame :: "env \<Rightarrow> bool" where
  "nullLoadFrame e \<longleftrightarrow>
     (\<forall>t. seg_sel (segDS (segLoad e SEG_DS 0 t)) = 0 \<and>
          segES (segLoad e SEG_DS 0 t) = segES t \<and> segFS (segLoad e SEG_DS 0 t) = segFS t \<and>
          segGS (segLoad e SEG_DS 0 t) = segGS t \<and> segCS (segLoad e SEG_DS 0 t) = segCS t \<and>
          seg_sel (segES (segLoad e SEG_ES 0 t)) = 0 \<and>
          segDS (segLoad e SEG_ES 0 t) = segDS t \<and> segFS (segLoad e SEG_ES 0 t) = segFS t \<and>
          segGS (segLoad e SEG_ES 0 t) = segGS t \<and> segCS (segLoad e SEG_ES 0 t) = segCS t) \<and>
     (\<forall>a t. segDS (checkIntReturn e a t) = segDS t \<and> segES (checkIntReturn e a t) = segES t \<and>
            segFS (checkIntReturn e a t) = segFS t \<and> segGS (checkIntReturn e a t) = segGS t)"

section \<open>The reference semantics of the rotates\<close>








section \<open>Facts about the 32-bit operators\<close>

lemma toInt32_id: "- 2147483648 \<le> x \<Longrightarrow> x < 2147483648 \<Longrightarrow> toInt32 x = x"
  unfolding toInt32_def by (simp add: signed_take_bit_int_eq_self)

lemma bit_toInt32: "n < 32 \<Longrightarrow> bit (toInt32 x) n = bit x n"
  unfolding toInt32_def by (cases "n = 31") (auto simp add: bit_signed_take_bit_iff min_def)

lemma bit_js_and: "n < 32 \<Longrightarrow> bit (js_and a b) n \<longleftrightarrow> bit a n \<and> bit b n"
  by (simp add: js_and_def bit_and_iff bit_toInt32)

lemma bit_js_xor: "n < 32 \<Longrightarrow> bit (js_xor a b) n \<longleftrightarrow> bit a n \<noteq> bit b n"
  by (simp add: js_xor_def bit_xor_iff bit_toInt32)

lemma bit_js_or: "n < 32 \<Longrightarrow> bit (js_or a b) n \<longleftrightarrow> bit a n \<or> bit b n"
  by (simp add: js_or_def bit_or_iff bit_toInt32)

lemma pow2_lt_31: "n < 31 \<Longrightarrow> (2::int) ^ n < 2147483648"
  using power_strict_increasing[of n 31 "2::int"] by simp

lemma js_and_pow2: "n < 31 \<Longrightarrow> js_and x (2 ^ n) \<noteq> 0 \<longleftrightarrow> bit x n"
proof -
  assume n: "n < 31"
  have "(2::int) ^ n < 2147483648" using n by (rule pow2_lt_31)
  moreover have "(0::int) \<le> 2 ^ n" by simp
  ultimately have "toInt32 (2 ^ n) = 2 ^ n" by (intro toInt32_id) linarith+
  then show ?thesis using n
    by (simp add: js_and_def and_exp_eq_0_iff_not_bit bit_toInt32)
qed

lemma js_and_mask: "n < 32 \<Longrightarrow> js_and x (2 ^ n - 1) = x mod 2 ^ n"
proof -
  assume n: "n < 32"
  have "(2::int) ^ n \<le> 2 ^ 31" using n by (intro power_increasing) auto
  then have b: "(2::int) ^ n - 1 < 2147483648" by simp
  have "(0::int) < 2 ^ n" by simp
  then have "toInt32 (2 ^ n - 1) = 2 ^ n - 1" using b by (intro toInt32_id) linarith+
  then have "js_and x (2 ^ n - 1) = toInt32 x AND mask n"
    by (simp add: js_and_def mask_eq_exp_minus_1)
  also have "\<dots> = take_bit n (toInt32 x)" by (simp add: take_bit_eq_mask)
  also have "\<dots> = take_bit n x" unfolding toInt32_def using n
    by (simp add: take_bit_signed_take_bit)
  finally show ?thesis by (simp add: take_bit_eq_mod)
qed

lemma js_and_255: "js_and x 255 = x mod 256"
  using js_and_mask[of 8 x] by simp
lemma js_and_65535: "js_and x 65535 = x mod 65536"
  using js_and_mask[of 16 x] by simp

lemma js_and_0x80: "js_and x 0x80 \<noteq> 0 \<longleftrightarrow> bit x 7"
  using js_and_pow2[of 7 x] by simp

lemma js_and_0x10: "js_and x 0x10 \<noteq> 0 \<longleftrightarrow> bit x 4"
  using js_and_pow2[of 4 x] by simp

lemma bit_iff_mod: "bit (x::int) n \<longleftrightarrow> 2 ^ n \<le> x mod 2 ^ Suc n"
proof -
  have e: "x mod (2 ^ n * 2) = 2 ^ n * (x div 2 ^ n mod 2) + x mod 2 ^ n"
    by (rule zmod_zmult2_eq) simp
  have c: "(2::int) ^ Suc n = 2 ^ n * 2" by simp
  have r: "0 \<le> x mod 2 ^ n" "x mod 2 ^ n < 2 ^ n" by simp_all
  show ?thesis
  proof (cases "odd (x div 2 ^ n)")
    case True
    then have "x div 2 ^ n mod 2 = 1" by presburger
    with e have "x mod (2 ^ n * 2) = 2 ^ n + x mod 2 ^ n" by simp
    with r True show ?thesis unfolding c bit_iff_odd by linarith
  next
    case False
    then have "x div 2 ^ n mod 2 = 0" by presburger
    with e have "x mod (2 ^ n * 2) = x mod 2 ^ n" by simp
    with r False show ?thesis unfolding c bit_iff_odd by linarith
  qed
qed

lemma bit7_iff: "bit (x::int) 7 \<longleftrightarrow> 128 \<le> x mod 256"
  using bit_iff_mod[of x 7] by simp

lemma bit4_iff: "bit (x::int) 4 \<longleftrightarrow> 16 \<le> x mod 32"
  using bit_iff_mod[of x 4] by simp


lemma bit7_byte: "0 \<le> x \<Longrightarrow> x < 256 \<Longrightarrow> bit (x::int) 7 \<longleftrightarrow> 128 \<le> x"
  unfolding bit7_iff by simp

lemma bit7_sum: "0 \<le> x \<Longrightarrow> x < 512 \<Longrightarrow> bit (x::int) 7 \<longleftrightarrow> (128 \<le> x \<and> x < 256) \<or> 384 \<le> x"
proof -
  assume a: "0 \<le> x" "x < 512"
  show ?thesis
  proof (cases "x < 256")
    case True
    with a have "x mod 256 = x" by simp
    then have "bit x 7 \<longleftrightarrow> 128 \<le> x" unfolding bit7_iff by simp
    with True show ?thesis by linarith
  next
    case False
    have "x mod 256 = (x - 256) mod 256" by simp
    also have "\<dots> = x - 256" using a False by (intro mod_pos_pos_trivial) linarith+
    finally have "x mod 256 = x - 256" .
    then have "bit x 7 \<longleftrightarrow> 128 \<le> x - 256" unfolding bit7_iff by simp
    with False show ?thesis by linarith
  qed
qed

lemma bit4_sum: 
  assumes "0 \<le> d" "d < 256" "0 \<le> s" "s < 256"
  shows "(bit (d + s :: int) 4 \<noteq> (bit d 4 \<noteq> bit s 4)) \<longleftrightarrow> 16 \<le> d mod 16 + s mod 16"
proof -
  define dl sl dh sh where "dl = d mod 16" and "sl = s mod 16" and "dh = d div 16" and "sh = s div 16"
  have d: "d = 16 * dh + dl" and s: "s = 16 * sh + sl" by (simp_all add: dl_def sl_def dh_def sh_def)
  have r: "0 \<le> dl" "dl < 16" "0 \<le> sl" "sl < 16" by (simp_all add: dl_def sl_def)
  have bd: "bit d 4 \<longleftrightarrow> odd dh" and bs: "bit s 4 \<longleftrightarrow> odd sh"
    by (simp_all add: bit_iff_odd dh_def sh_def)
  have "(d + s) div 16 = dh + sh + (dl + sl) div 16"
    unfolding d s by simp
  moreover have "(dl + sl) div 16 = (if 16 \<le> dl + sl then 1 else 0)"
  proof (cases "16 \<le> dl + sl")
    case True
    then have "(dl + sl) div 16 = 1" using r by linarith
    with True show ?thesis by simp
  next
    case False
    then show ?thesis using r by simp
  qed
  ultimately have ba: "bit (d + s) 4 \<longleftrightarrow> odd (dh + sh + (if 16 \<le> dl + sl then 1 else 0))"
    by (simp add: bit_iff_odd)
  show ?thesis unfolding ba bd bs dl_def[symmetric] sl_def[symmetric]
    by (cases "16 \<le> dl + sl") auto
qed

section \<open>ADD on bytes and the flags it caches\<close>

lemma and_0x80: "(x::int) AND 0x80 \<noteq> 0 \<longleftrightarrow> bit x 7"
  using and_exp_eq_0_iff_not_bit[of x 7] by simp
lemma and_0x10: "(x::int) AND 0x10 \<noteq> 0 \<longleftrightarrow> bit x 4"
  using and_exp_eq_0_iff_not_bit[of x 4] by simp

lemma byte_all: "js_or RESULT_BYTE RESULT_ALL = 0xBF"
  by (simp add: js_or_def toInt32_def RESULT_BYTE_def RESULT_ALL_def)

lemma cached_BF: "js_and 0xBF RESULT_CF \<noteq> 0" "js_and 0xBF RESULT_PF \<noteq> 0" "js_and 0xBF RESULT_AF \<noteq> 0"
  "js_and 0xBF RESULT_ZF \<noteq> 0" "js_and 0xBF RESULT_SF \<noteq> 0" "js_and 0xBF RESULT_OF \<noteq> 0"
  by (simp_all add: js_and_def toInt32_def RESULT_CF_def RESULT_PF_def RESULT_AF_def RESULT_ZF_def RESULT_SF_def RESULT_OF_def)

lemma size_BF: "js_and 0xBF RESULT_TYPE = 0x80"
  by (simp add: js_and_def toInt32_def RESULT_TYPE_def)

lemma fnADDb_state:
  "snd (fnADDb dst src s) = s\<lparr>regPS := flushFlags 0xBF s, resultDst := dst, resultSrc := src,
      resultArith := toInt32 (dst + src), resultLogic := toInt32 (dst + src), resultType := 0xBF,
      nStepCycles := nStepCycles s - cyclesArith s\<rparr>"
  by (simp add: fnADDb_def Let_def setArithResult_def byte_all cyclesArith_def)

lemma fnADDb_getCF: "getCF (snd (fnADDb dst src s)) \<longleftrightarrow> bit (js_xor dst (js_and (js_xor dst src) (js_xor src (toInt32 (dst + src))))) 7"
  by (simp add: fnADDb_state getCF_def cached_BF resultSize_def size_BF js_and_0x80)

lemma fnADDb_getOF: "getOF (snd (fnADDb dst src s)) \<longleftrightarrow> bit (js_and (js_xor dst (toInt32 (dst + src))) (js_xor src (toInt32 (dst + src)))) 7"
  by (simp add: fnADDb_state getOF_def cached_BF resultSize_def size_BF js_and_0x80)

lemma fnADDb_getAF: "getAF (snd (fnADDb dst src s)) \<longleftrightarrow> bit (js_xor (toInt32 (dst + src)) (js_xor dst src)) 4"
  by (simp add: fnADDb_state getAF_def cached_BF js_and_0x10)

lemma fnADDb_getSF: "getSF (snd (fnADDb dst src s)) \<longleftrightarrow> bit (toInt32 (dst + src)) 7"
  by (simp add: fnADDb_state getSF_def cached_BF resultSize_def size_BF js_and_0x80)

lemma fnADDb_getZF: "getZF (snd (fnADDb dst src s)) \<longleftrightarrow> toInt32 (dst + src) mod 256 = 0"
proof -
  have "js_or (0x80 - 1) 0x80 = 255" by (simp add: js_or_def toInt32_def)
  then show ?thesis
    by (simp add: fnADDb_state getZF_def cached_BF resultSize_def size_BF js_and_255)
qed

lemma fnADDb_getPF: "getPF (snd (fnADDb dst src s)) \<longleftrightarrow> parity8 (toInt32 (dst + src) mod 256)"
  by (simp add: fnADDb_state getPF_def cached_BF js_and_255)

lemma fnADDb_fst: "fst (fnADDb dst src s) = toInt32 (dst + src) mod 256"
  by (simp add: fnADDb_def Let_def js_and_255)

lemma bit_mod256: "n < 8 \<Longrightarrow> bit ((x::int) mod 256) n = bit x n"
  using bit_take_bit_iff[of 8 x n] by (simp add: take_bit_eq_mod)

lemma parity8_xor: "parity8 b \<longleftrightarrow> \<not> (bit b 0 \<noteq> (bit b 1 \<noteq> (bit b 2 \<noteq> (bit b 3 \<noteq> (bit b 4 \<noteq> (bit b 5 \<noteq> (bit b 6 \<noteq> bit b 7)))))))"
  unfolding parity8_def by (cases "bit b 0"; cases "bit b 1"; cases "bit b 2"; cases "bit b 3"; cases "bit b 4"; cases "bit b 5"; cases "bit b 6"; cases "bit b 7"; simp)

text \<open>
  C1. For every pair of byte operands, \<open>fnADDb\<close> returns the sum reduced to eight bits and
  leaves all six flags cached so that each reads as its reference formula gives it, applied
  to \<open>D = dst\<close>, \<open>S = src\<close>, \<open>A = dst + src\<close> under the byte mask 0x80. Those values are
  the architectural ones: CF is the carry out of bit 7, AF the carry out of bit 3, ZF and SF
  describe the eight-bit sum, and OF tells that the signed sum leaves the range of a byte.
  The example of the claim, 0x50 + 0x50, is the instance that follows the theorem.
\<close>

theorem fnADDb_flags:
  assumes "0 \<le> dst" "dst < 256" "0 \<le> src" "src < 256"
  shows "fst (fnADDb dst src s) = (dst + src) mod 256
    \<and> (getCF (snd (fnADDb dst src s)) \<longleftrightarrow> spec_CF dst src (dst + src) 0x80)
    \<and> (getPF (snd (fnADDb dst src s)) \<longleftrightarrow> spec_PF (dst + src))
    \<and> (getAF (snd (fnADDb dst src s)) \<longleftrightarrow> spec_AF dst src (dst + src))
    \<and> (getZF (snd (fnADDb dst src s)) \<longleftrightarrow> spec_ZF (dst + src) 0x80)
    \<and> (getSF (snd (fnADDb dst src s)) \<longleftrightarrow> spec_SF (dst + src) 0x80)
    \<and> (getOF (snd (fnADDb dst src s)) \<longleftrightarrow> spec_OF dst src (dst + src) 0x80)
    \<and> (getCF (snd (fnADDb dst src s)) \<longleftrightarrow> 256 \<le> dst + src)
    \<and> (getAF (snd (fnADDb dst src s)) \<longleftrightarrow> 16 \<le> dst mod 16 + src mod 16)
    \<and> (getZF (snd (fnADDb dst src s)) \<longleftrightarrow> (dst + src) mod 256 = 0)
    \<and> (getSF (snd (fnADDb dst src s)) \<longleftrightarrow> 128 \<le> (dst + src) mod 256)
    \<and> (getOF (snd (fnADDb dst src s)) \<longleftrightarrow> sbyte dst + sbyte src < -128 \<or> 127 < sbyte dst + sbyte src)"
proof -
  have A: "toInt32 (dst + src) = dst + src" using assms by (intro toInt32_id) linarith+
  have d7: "bit dst 7 \<longleftrightarrow> 128 \<le> dst" by (rule bit7_byte[OF assms(1,2)])
  have s7: "bit src 7 \<longleftrightarrow> 128 \<le> src" by (rule bit7_byte[OF assms(3,4)])
  have a7: "bit (dst + src) 7 \<longleftrightarrow> (128 \<le> dst + src \<and> dst + src < 256) \<or> 384 \<le> dst + src"
    using assms by (intro bit7_sum) linarith+
  have sd: "sbyte dst = (if 128 \<le> dst then dst - 256 else dst)" using assms by (simp add: sbyte_def)
  have ss: "sbyte src = (if 128 \<le> src then src - 256 else src)" using assms by (simp add: sbyte_def)
  have r: "fst (fnADDb dst src s) = (dst + src) mod 256" by (simp add: fnADDb_fst A)
  have cf1: "getCF (snd (fnADDb dst src s)) \<longleftrightarrow> spec_CF dst src (dst + src) 0x80"
    by (simp add: fnADDb_getCF A spec_CF_def and_0x80 bit_js_xor bit_js_and bit_xor_iff bit_and_iff)
  have pf1: "getPF (snd (fnADDb dst src s)) \<longleftrightarrow> spec_PF (dst + src)"
    by (simp add: fnADDb_getPF A spec_PF_def parity8_xor bit_mod256)
  have af1: "getAF (snd (fnADDb dst src s)) \<longleftrightarrow> spec_AF dst src (dst + src)"
    by (simp add: fnADDb_getAF A spec_AF_def and_0x10 bit_js_xor bit_xor_iff)
  have zf1: "getZF (snd (fnADDb dst src s)) \<longleftrightarrow> spec_ZF (dst + src) 0x80"
  proof -
    have "(dst + src) AND 255 = (dst + src) mod 256" 
      using take_bit_eq_mask[of 8 "dst + src"] by (simp add: take_bit_eq_mod mask_eq_exp_minus_1)
    then show ?thesis by (simp add: fnADDb_getZF A spec_ZF_def)
  qed
  have sf1: "getSF (snd (fnADDb dst src s)) \<longleftrightarrow> spec_SF (dst + src) 0x80"
    by (simp add: fnADDb_getSF A spec_SF_def and_0x80)
  have of1: "getOF (snd (fnADDb dst src s)) \<longleftrightarrow> spec_OF dst src (dst + src) 0x80"
    by (simp add: fnADDb_getOF A spec_OF_def and_0x80 bit_js_xor bit_js_and bit_xor_iff bit_and_iff)
  have cf2: "getCF (snd (fnADDb dst src s)) \<longleftrightarrow> 256 \<le> dst + src"
    unfolding fnADDb_getCF A bit_js_xor[of 7, simplified] bit_js_and[of 7, simplified] a7 d7 s7
    using assms by linarith
  have af2: "getAF (snd (fnADDb dst src s)) \<longleftrightarrow> 16 \<le> dst mod 16 + src mod 16"
    using bit4_sum[OF assms] by (simp add: fnADDb_getAF A bit_js_xor)
  have zf2: "getZF (snd (fnADDb dst src s)) \<longleftrightarrow> (dst + src) mod 256 = 0"
    by (simp add: fnADDb_getZF A)
  have sf2: "getSF (snd (fnADDb dst src s)) \<longleftrightarrow> 128 \<le> (dst + src) mod 256"
    by (simp add: fnADDb_getSF A bit7_iff)
  have of2: "getOF (snd (fnADDb dst src s)) \<longleftrightarrow> sbyte dst + sbyte src < -128 \<or> 127 < sbyte dst + sbyte src"
    unfolding fnADDb_getOF A bit_js_xor[of 7, simplified] bit_js_and[of 7, simplified] a7 d7 s7 sd ss
    using assms by (cases "128 \<le> dst"; cases "128 \<le> src"; simp; linarith)
  show ?thesis using r cf1 pf1 af1 zf1 sf1 of1 cf2 af2 zf2 sf2 of2 by blast
qed

theorem fnADDb_flags_witness:
  "(0::int) \<le> 0x50 \<and> (0x50::int) < 256 \<and> fst (fnADDb 0x50 0x50 cpu0) = 0xA0
    \<and> \<not> getCF (snd (fnADDb 0x50 0x50 cpu0))
    \<and> getOF (snd (fnADDb 0x50 0x50 cpu0))
    \<and> getSF (snd (fnADDb 0x50 0x50 cpu0))
    \<and> \<not> getZF (snd (fnADDb 0x50 0x50 cpu0))
    \<and> getPF (snd (fnADDb 0x50 0x50 cpu0))
    \<and> \<not> getAF (snd (fnADDb 0x50 0x50 cpu0))"
  using fnADDb_flags[of "0x50" "0x50" cpu0]
  by (simp add: sbyte_def spec_CF_def spec_PF_def spec_AF_def spec_ZF_def spec_SF_def spec_OF_def)

section \<open>Storing one flag leaves the others\<close>

lemma toInt32_toInt32: "toInt32 (toInt32 x) = toInt32 x"
  by (simp add: toInt32_def)

lemma bit_js_not: "n < 32 \<Longrightarrow> bit (js_not a) n \<longleftrightarrow> \<not> bit a n"
  by (simp add: js_not_def bit_not_iff bit_toInt32)

lemma js_and_js_and: "js_and (js_and a b) c = js_and a (js_and b c)"
  unfolding js_and_def
  by (rule bit_eqI) (auto simp add: toInt32_def bit_signed_take_bit_iff bit_and_iff)

lemma js_and_js_or: "js_and (js_or a b) c = js_or (js_and a c) (js_and b c)"
  unfolding js_and_def js_or_def
  by (rule bit_eqI) (auto simp add: toInt32_def bit_signed_take_bit_iff bit_and_iff bit_or_iff)

lemma notflag_type: 
  "js_and (js_not RESULT_CF) RESULT_TYPE = RESULT_TYPE"
  "js_and (js_not RESULT_ZF) RESULT_TYPE = RESULT_TYPE"
  "js_and (js_not RESULT_OF) RESULT_TYPE = RESULT_TYPE"
  by (simp_all add: js_and_def js_not_def RESULT_CF_def RESULT_ZF_def RESULT_OF_def RESULT_TYPE_def toInt32_def)

lemma js_and_RESULT_TYPE: "js_and x RESULT_TYPE = js_and (toInt32 x) RESULT_TYPE"
  by (simp add: js_and_def toInt32_toInt32)

lemma resultSize_storeFlag:
  assumes "js_and (js_not rbit) RESULT_TYPE = RESULT_TYPE"
  shows "resultSize (storeFlag rbit psbit v s) = resultSize s"
  using assms by (simp add: resultSize_def storeFlag_def js_and_js_and)

lemma flag_pow2:
  "RESULT_CF = 2 ^ 0" "RESULT_PF = 2 ^ 1" "RESULT_AF = 2 ^ 2" "RESULT_ZF = 2 ^ 3"
  "RESULT_SF = 2 ^ 4" "RESULT_OF = 2 ^ 5"
  "PS_CF = 2 ^ 0" "PS_PF = 2 ^ 2" "PS_AF = 2 ^ 4" "PS_ZF = 2 ^ 6" "PS_SF = 2 ^ 7" "PS_OF = 2 ^ 11"
  by (simp_all add: RESULT_CF_def RESULT_PF_def RESULT_AF_def RESULT_ZF_def RESULT_SF_def RESULT_OF_def
     PS_CF_def PS_PF_def PS_AF_def PS_ZF_def PS_SF_def PS_OF_def)

lemma bit_pow2_int: "bit ((2::int) ^ m) n \<longleftrightarrow> n = m"
  by (auto simp add: bit_exp_iff)

lemma js_and_not_pow2: "m < 31 \<Longrightarrow> n < 31 \<Longrightarrow> m \<noteq> n \<Longrightarrow>
   js_and (js_and x (js_not (2 ^ m))) (2 ^ n) \<noteq> 0 \<longleftrightarrow> js_and x (2 ^ n) \<noteq> 0"
  by (simp add: js_and_pow2 bit_js_and bit_js_not bit_pow2_int)

lemma js_or_pow2: "m < 31 \<Longrightarrow> n < 31 \<Longrightarrow> m \<noteq> n \<Longrightarrow>
   js_and (js_or x (2 ^ m)) (2 ^ n) \<noteq> 0 \<longleftrightarrow> js_and x (2 ^ n) \<noteq> 0"
  by (simp add: js_and_pow2 bit_js_or bit_pow2_int)

lemma js_or_pow2_same: "m < 31 \<Longrightarrow> js_and (js_or x (2 ^ m)) (2 ^ m) \<noteq> 0"
  by (simp add: js_and_pow2 bit_js_or bit_pow2_int)

lemma js_and_not_pow2_same: "m < 31 \<Longrightarrow> js_and (js_and x (js_not (2 ^ m))) (2 ^ m) = 0"
  using js_and_pow2[of m "js_and x (js_not (2 ^ m))"]
  by (simp add: bit_js_and bit_js_not bit_pow2_int)


lemma storeFlag_fields:
  "resultType (storeFlag rbit psbit v s) = js_and (resultType s) (js_not rbit)"
  "regPS (storeFlag rbit psbit v s) = (if v then js_or (regPS s) psbit else js_and (regPS s) (js_not psbit))"
  "resultDst (storeFlag rbit psbit v s) = resultDst s"
  "resultSrc (storeFlag rbit psbit v s) = resultSrc s"
  "resultArith (storeFlag rbit psbit v s) = resultArith s"
  "resultLogic (storeFlag rbit psbit v s) = resultLogic s"
  by (simp_all add: storeFlag_def)

lemma getCF_storeFlag_other:
  assumes "rbit = 2 ^ a" "psbit = 2 ^ b" "a < 31" "b < 31" "a \<noteq> 0" "b \<noteq> 0"
    and "js_and (js_not rbit) RESULT_TYPE = RESULT_TYPE"
  shows "getCF (storeFlag rbit psbit v s) = getCF s"
proof -
  have t: "js_and (js_and (resultType s) (js_not (2 ^ a))) (2 ^ 0) \<noteq> 0 \<longleftrightarrow> js_and (resultType s) (2 ^ 0) \<noteq> 0"
    using assms by (intro js_and_not_pow2) simp_all
  have p1: "js_and (js_or (regPS s) (2 ^ b)) (2 ^ 0) \<noteq> 0 \<longleftrightarrow> js_and (regPS s) (2 ^ 0) \<noteq> 0"
    using assms by (intro js_or_pow2) simp_all
  have p2: "js_and (js_and (regPS s) (js_not (2 ^ b))) (2 ^ 0) \<noteq> 0 \<longleftrightarrow> js_and (regPS s) (2 ^ 0) \<noteq> 0"
    using assms by (intro js_and_not_pow2) simp_all
  have z: "resultSize (storeFlag (2 ^ a) (2 ^ b) v s) = resultSize s"
    using assms(7) unfolding assms(1) by (rule resultSize_storeFlag)
  show ?thesis
    unfolding assms(1,2) getCF_def z storeFlag_fields flag_pow2
    using t p1 p2 by (cases v) auto
qed


lemma getPF_storeFlag_other:
  assumes "rbit = 2 ^ a" "psbit = 2 ^ b" "a < 31" "b < 31" "a \<noteq> 1" "b \<noteq> 2"
    and "js_and (js_not rbit) RESULT_TYPE = RESULT_TYPE"
  shows "getPF (storeFlag rbit psbit v s) = getPF s"
proof -
  have t: "js_and (js_and (resultType s) (js_not (2 ^ a))) (2 ^ 1) \<noteq> 0 \<longleftrightarrow> js_and (resultType s) (2 ^ 1) \<noteq> 0"
    using assms by (intro js_and_not_pow2) simp_all
  have p1: "js_and (js_or (regPS s) (2 ^ b)) (2 ^ 2) \<noteq> 0 \<longleftrightarrow> js_and (regPS s) (2 ^ 2) \<noteq> 0"
    using assms by (intro js_or_pow2) simp_all
  have p2: "js_and (js_and (regPS s) (js_not (2 ^ b))) (2 ^ 2) \<noteq> 0 \<longleftrightarrow> js_and (regPS s) (2 ^ 2) \<noteq> 0"
    using assms by (intro js_and_not_pow2) simp_all
  have z: "resultSize (storeFlag (2 ^ a) (2 ^ b) v s) = resultSize s"
    using assms(7) unfolding assms(1) by (rule resultSize_storeFlag)
  show ?thesis
    unfolding assms(1,2) getPF_def z storeFlag_fields flag_pow2
    using t p1 p2 by (cases v) auto
qed

lemma getPF_storeFlag_same: "getPF (storeFlag RESULT_PF PS_PF v s) = v"
proof -
  have t: "js_and (js_and (resultType s) (js_not (2 ^ 1))) (2 ^ 1) = 0"
    by (rule js_and_not_pow2_same) simp
  have p1: "js_and (js_or (regPS s) (2 ^ 2)) (2 ^ 2) \<noteq> 0"
    by (rule js_or_pow2_same) simp
  have p2: "js_and (js_and (regPS s) (js_not (2 ^ 2))) (2 ^ 2) = 0"
    by (rule js_and_not_pow2_same) simp
  show ?thesis
    unfolding getPF_def storeFlag_fields flag_pow2
    using t p1 p2 by (cases v) auto
qed

lemma getAF_storeFlag_other:
  assumes "rbit = 2 ^ a" "psbit = 2 ^ b" "a < 31" "b < 31" "a \<noteq> 2" "b \<noteq> 4"
    and "js_and (js_not rbit) RESULT_TYPE = RESULT_TYPE"
  shows "getAF (storeFlag rbit psbit v s) = getAF s"
proof -
  have t: "js_and (js_and (resultType s) (js_not (2 ^ a))) (2 ^ 2) \<noteq> 0 \<longleftrightarrow> js_and (resultType s) (2 ^ 2) \<noteq> 0"
    using assms by (intro js_and_not_pow2) simp_all
  have p1: "js_and (js_or (regPS s) (2 ^ b)) (2 ^ 4) \<noteq> 0 \<longleftrightarrow> js_and (regPS s) (2 ^ 4) \<noteq> 0"
    using assms by (intro js_or_pow2) simp_all
  have p2: "js_and (js_and (regPS s) (js_not (2 ^ b))) (2 ^ 4) \<noteq> 0 \<longleftrightarrow> js_and (regPS s) (2 ^ 4) \<noteq> 0"
    using assms by (intro js_and_not_pow2) simp_all
  have z: "resultSize (storeFlag (2 ^ a) (2 ^ b) v s) = resultSize s"
    using assms(7) unfolding assms(1) by (rule resultSize_storeFlag)
  show ?thesis
    unfolding assms(1,2) getAF_def z storeFlag_fields flag_pow2
    using t p1 p2 by (cases v) auto
qed

lemma getAF_storeFlag_same: "getAF (storeFlag RESULT_AF PS_AF v s) = v"
proof -
  have t: "js_and (js_and (resultType s) (js_not (2 ^ 2))) (2 ^ 2) = 0"
    by (rule js_and_not_pow2_same) simp
  have p1: "js_and (js_or (regPS s) (2 ^ 4)) (2 ^ 4) \<noteq> 0"
    by (rule js_or_pow2_same) simp
  have p2: "js_and (js_and (regPS s) (js_not (2 ^ 4))) (2 ^ 4) = 0"
    by (rule js_and_not_pow2_same) simp
  show ?thesis
    unfolding getAF_def storeFlag_fields flag_pow2
    using t p1 p2 by (cases v) auto
qed

lemma getZF_storeFlag_other:
  assumes "rbit = 2 ^ a" "psbit = 2 ^ b" "a < 31" "b < 31" "a \<noteq> 3" "b \<noteq> 6"
    and "js_and (js_not rbit) RESULT_TYPE = RESULT_TYPE"
  shows "getZF (storeFlag rbit psbit v s) = getZF s"
proof -
  have t: "js_and (js_and (resultType s) (js_not (2 ^ a))) (2 ^ 3) \<noteq> 0 \<longleftrightarrow> js_and (resultType s) (2 ^ 3) \<noteq> 0"
    using assms by (intro js_and_not_pow2) simp_all
  have p1: "js_and (js_or (regPS s) (2 ^ b)) (2 ^ 6) \<noteq> 0 \<longleftrightarrow> js_and (regPS s) (2 ^ 6) \<noteq> 0"
    using assms by (intro js_or_pow2) simp_all
  have p2: "js_and (js_and (regPS s) (js_not (2 ^ b))) (2 ^ 6) \<noteq> 0 \<longleftrightarrow> js_and (regPS s) (2 ^ 6) \<noteq> 0"
    using assms by (intro js_and_not_pow2) simp_all
  have z: "resultSize (storeFlag (2 ^ a) (2 ^ b) v s) = resultSize s"
    using assms(7) unfolding assms(1) by (rule resultSize_storeFlag)
  show ?thesis
    unfolding assms(1,2) getZF_def z storeFlag_fields flag_pow2
    using t p1 p2 by (cases v) auto
qed

lemma getZF_storeFlag_same: "getZF (storeFlag RESULT_ZF PS_ZF v s) = v"
proof -
  have t: "js_and (js_and (resultType s) (js_not (2 ^ 3))) (2 ^ 3) = 0"
    by (rule js_and_not_pow2_same) simp
  have p1: "js_and (js_or (regPS s) (2 ^ 6)) (2 ^ 6) \<noteq> 0"
    by (rule js_or_pow2_same) simp
  have p2: "js_and (js_and (regPS s) (js_not (2 ^ 6))) (2 ^ 6) = 0"
    by (rule js_and_not_pow2_same) simp
  show ?thesis
    unfolding getZF_def storeFlag_fields flag_pow2
    using t p1 p2 by (cases v) auto
qed

lemma getSF_storeFlag_other:
  assumes "rbit = 2 ^ a" "psbit = 2 ^ b" "a < 31" "b < 31" "a \<noteq> 4" "b \<noteq> 7"
    and "js_and (js_not rbit) RESULT_TYPE = RESULT_TYPE"
  shows "getSF (storeFlag rbit psbit v s) = getSF s"
proof -
  have t: "js_and (js_and (resultType s) (js_not (2 ^ a))) (2 ^ 4) \<noteq> 0 \<longleftrightarrow> js_and (resultType s) (2 ^ 4) \<noteq> 0"
    using assms by (intro js_and_not_pow2) simp_all
  have p1: "js_and (js_or (regPS s) (2 ^ b)) (2 ^ 7) \<noteq> 0 \<longleftrightarrow> js_and (regPS s) (2 ^ 7) \<noteq> 0"
    using assms by (intro js_or_pow2) simp_all
  have p2: "js_and (js_and (regPS s) (js_not (2 ^ b))) (2 ^ 7) \<noteq> 0 \<longleftrightarrow> js_and (regPS s) (2 ^ 7) \<noteq> 0"
    using assms by (intro js_and_not_pow2) simp_all
  have z: "resultSize (storeFlag (2 ^ a) (2 ^ b) v s) = resultSize s"
    using assms(7) unfolding assms(1) by (rule resultSize_storeFlag)
  show ?thesis
    unfolding assms(1,2) getSF_def z storeFlag_fields flag_pow2
    using t p1 p2 by (cases v) auto
qed

lemma getSF_storeFlag_same: "getSF (storeFlag RESULT_SF PS_SF v s) = v"
proof -
  have t: "js_and (js_and (resultType s) (js_not (2 ^ 4))) (2 ^ 4) = 0"
    by (rule js_and_not_pow2_same) simp
  have p1: "js_and (js_or (regPS s) (2 ^ 7)) (2 ^ 7) \<noteq> 0"
    by (rule js_or_pow2_same) simp
  have p2: "js_and (js_and (regPS s) (js_not (2 ^ 7))) (2 ^ 7) = 0"
    by (rule js_and_not_pow2_same) simp
  show ?thesis
    unfolding getSF_def storeFlag_fields flag_pow2
    using t p1 p2 by (cases v) auto
qed

lemma getOF_storeFlag_other:
  assumes "rbit = 2 ^ a" "psbit = 2 ^ b" "a < 31" "b < 31" "a \<noteq> 5" "b \<noteq> 11"
    and "js_and (js_not rbit) RESULT_TYPE = RESULT_TYPE"
  shows "getOF (storeFlag rbit psbit v s) = getOF s"
proof -
  have t: "js_and (js_and (resultType s) (js_not (2 ^ a))) (2 ^ 5) \<noteq> 0 \<longleftrightarrow> js_and (resultType s) (2 ^ 5) \<noteq> 0"
    using assms by (intro js_and_not_pow2) simp_all
  have p1: "js_and (js_or (regPS s) (2 ^ b)) (2 ^ 11) \<noteq> 0 \<longleftrightarrow> js_and (regPS s) (2 ^ 11) \<noteq> 0"
    using assms by (intro js_or_pow2) simp_all
  have p2: "js_and (js_and (regPS s) (js_not (2 ^ b))) (2 ^ 11) \<noteq> 0 \<longleftrightarrow> js_and (regPS s) (2 ^ 11) \<noteq> 0"
    using assms by (intro js_and_not_pow2) simp_all
  have z: "resultSize (storeFlag (2 ^ a) (2 ^ b) v s) = resultSize s"
    using assms(7) unfolding assms(1) by (rule resultSize_storeFlag)
  show ?thesis
    unfolding assms(1,2) getOF_def z storeFlag_fields flag_pow2
    using t p1 p2 by (cases v) auto
qed


section \<open>ARPL\<close>

lemmas storeZF_other =
  getCF_storeFlag_other[where a=3 and b=6 and rbit=RESULT_ZF and psbit=PS_ZF, OF flag_pow2(4) flag_pow2(10) _ _ _ _ notflag_type(2), simplified]
  getPF_storeFlag_other[where a=3 and b=6 and rbit=RESULT_ZF and psbit=PS_ZF, OF flag_pow2(4) flag_pow2(10) _ _ _ _ notflag_type(2), simplified]
  getAF_storeFlag_other[where a=3 and b=6 and rbit=RESULT_ZF and psbit=PS_ZF, OF flag_pow2(4) flag_pow2(10) _ _ _ _ notflag_type(2), simplified]
  getSF_storeFlag_other[where a=3 and b=6 and rbit=RESULT_ZF and psbit=PS_ZF, OF flag_pow2(4) flag_pow2(10) _ _ _ _ notflag_type(2), simplified]
  getOF_storeFlag_other[where a=3 and b=6 and rbit=RESULT_ZF and psbit=PS_ZF, OF flag_pow2(4) flag_pow2(10) _ _ _ _ notflag_type(2), simplified]

lemma getters_nStepCycles:
  "getCF (s\<lparr>nStepCycles := c\<rparr>) = getCF s"
  "getPF (s\<lparr>nStepCycles := c\<rparr>) = getPF s"
  "getAF (s\<lparr>nStepCycles := c\<rparr>) = getAF s"
  "getZF (s\<lparr>nStepCycles := c\<rparr>) = getZF s"
  "getSF (s\<lparr>nStepCycles := c\<rparr>) = getSF s"
  "getOF (s\<lparr>nStepCycles := c\<rparr>) = getOF s"
  by (simp_all add: getCF_def getPF_def getAF_def getZF_def getSF_def getOF_def resultSize_def)

lemma rpl_and: "js_and x SEL_RPL = x mod 4"
  using js_and_mask[of 2 x] by (simp add: SEL_RPL_def)

lemma bit_3: "bit (3::int) n \<longleftrightarrow> n < 2"
  using bit_mask_iff[of 2 n, where ?'a=int] by (simp add: mask_eq_exp_minus_1)

lemma arpl_value:
  assumes "0 \<le> dst" "dst < 65536" "0 \<le> r" "r < 4"
  shows "js_or (js_and dst (js_not SEL_RPL)) r = 4 * (dst div 4) + r"
proof -
  have d: "toInt32 dst = dst" using assms by (intro toInt32_id) linarith+
  have n: "js_not SEL_RPL = - 4" by (simp add: js_not_def SEL_RPL_def toInt32_def)
  have n': "toInt32 (- 4) = - 4" by (simp add: toInt32_def)
  have a: "js_and dst (js_not SEL_RPL) = dst AND - 4" by (simp add: js_and_def d n n')
  have b: "dst AND - 4 = 4 * (dst div 4)"
  proof -
    have "dst AND - 4 = dst AND NOT (mask 2)" by (simp add: mask_eq_exp_minus_1)
    also have "\<dots> = push_bit 2 (drop_bit 2 dst)" 
    proof (rule bit_eqI)
      fix n :: nat
      have "2 \<le> n \<Longrightarrow> 2 + (n - 2) = n" by simp
      then show "bit (dst AND NOT (mask 2)) n = bit (push_bit 2 (drop_bit 2 dst)) n"
        by (auto simp add: bit_and_iff bit_not_iff bit_mask_iff bit_push_bit_iff bit_drop_bit_eq
             simp del: add_2_eq_Suc add_2_eq_Suc')
    qed
    also have "\<dots> = 4 * (dst div 4)" by (simp add: push_bit_eq_mult drop_bit_eq_div)
    finally show ?thesis .
  qed
  have r1: "0 \<le> 4 * (dst div 4)" "4 * (dst div 4) < 65536" using assms by auto
  have t1: "toInt32 (4 * (dst div 4)) = 4 * (dst div 4)" using r1 by (intro toInt32_id) linarith+
  have t2: "toInt32 r = r" using assms by (intro toInt32_id) linarith+
  have tb: "take_bit 2 r = r" using assms by (simp add: take_bit_eq_mod)
  have "js_or (4 * (dst div 4)) r = (4 * (dst div 4)) OR r"
    by (simp add: js_or_def t1 t2)
  also have "\<dots> = 4 * (dst div 4) + r"
  proof -
    have "4 * (dst div 4) + r = push_bit 2 (dst div 4) + take_bit 2 r"
      by (simp add: push_bit_eq_mult tb)
    also have "\<dots> = push_bit 2 (dst div 4) OR take_bit 2 r"
      by (rule disjunctive_add_eq_or) (auto simp add: bit_eq_iff bit_and_iff bit_push_bit_iff bit_take_bit_iff)
    finally show ?thesis by (simp add: push_bit_eq_mult tb mult.commute)
  qed
  finally show ?thesis by (simp add: a b)
qed

lemma regPS_outside:
  "js_and (js_or ps z) (js_not z) = js_and ps (js_not z)"
  "js_and (js_and ps (js_not z)) (js_not z) = js_and ps (js_not z)"
  unfolding js_and_def js_or_def js_not_def
  by (rule bit_eqI, auto simp add: toInt32_def bit_signed_take_bit_iff bit_and_iff bit_or_iff bit_not_iff)+

lemma regPS_storeFlag:
  "js_and (regPS (storeFlag rbit psbit v s)) (js_not psbit) = js_and (regPS s) (js_not psbit)"
  by (simp add: storeFlag_fields regPS_outside)

lemma notZF_direct:
  "js_and (js_not PS_ZF) PS_TF = PS_TF" "js_and (js_not PS_ZF) PS_IF = PS_IF"
  "js_and (js_not PS_ZF) PS_DF = PS_DF"
  by (simp_all add: js_and_def js_not_def PS_ZF_def PS_TF_def PS_IF_def PS_DF_def toInt32_def)

lemma direct_flags_outside_ZF:
  assumes "js_and p (js_not PS_ZF) = js_and q (js_not PS_ZF)"
  shows "js_and p PS_TF = js_and q PS_TF" "js_and p PS_IF = js_and q PS_IF"
    "js_and p PS_DF = js_and q PS_DF"
proof -
  have "js_and (js_and p (js_not PS_ZF)) t = js_and (js_and q (js_not PS_ZF)) t" for t
    using assms by simp
  then have "js_and p (js_and (js_not PS_ZF) t) = js_and q (js_and (js_not PS_ZF) t)" for t
    unfolding js_and_js_and .
  from this[of PS_TF] this[of PS_IF] this[of PS_DF]
  show "js_and p PS_TF = js_and q PS_TF" "js_and p PS_IF = js_and q PS_IF"
    "js_and p PS_DF = js_and q PS_DF"
    unfolding notZF_direct by simp_all
qed

lemma fnARPL_regPS:
  "js_and (regPS (snd (fnARPL dst src s))) (js_not PS_ZF) = js_and (regPS s) (js_not PS_ZF)"
  by (simp add: fnARPL_def Let_def setZF_def clearZF_def regPS_storeFlag)

text \<open>
  C10. For 16-bit selectors, \<open>fnARPL\<close> compares the two RPL fields. If that of \<open>dst\<close> is
  the smaller one, the result is \<open>dst\<close> with its low two bits replaced by those of
  \<open>src\<close>, and ZF reads set; otherwise the result is \<open>dst\<close> and ZF reads clear. Either way
  bits 2 and up of the result are those of \<open>dst\<close>, and no other flag is modified: CF, PF,
  AF, SF and OF read as before, and \<open>regPS\<close>, which holds the directly stored flags, is
  unchanged in every bit but that of ZF; in particular TF, IF and DF are as before.
\<close>

theorem fnARPL_spec:
  assumes "0 \<le> dst" "dst < 65536" "0 \<le> src" "src < 65536"
  shows "(if dst mod 4 < src mod 4
          then fst (fnARPL dst src s) = 4 * (dst div 4) + src mod 4 \<and> getZF (snd (fnARPL dst src s))
          else fst (fnARPL dst src s) = dst \<and> \<not> getZF (snd (fnARPL dst src s)))
       \<and> fst (fnARPL dst src s) div 4 = dst div 4
       \<and> getCF (snd (fnARPL dst src s)) = getCF s
       \<and> getPF (snd (fnARPL dst src s)) = getPF s
       \<and> getAF (snd (fnARPL dst src s)) = getAF s
       \<and> getSF (snd (fnARPL dst src s)) = getSF s
       \<and> getOF (snd (fnARPL dst src s)) = getOF s
       \<and> js_and (regPS (snd (fnARPL dst src s))) (js_not PS_ZF) = js_and (regPS s) (js_not PS_ZF)
       \<and> js_and (regPS (snd (fnARPL dst src s))) PS_TF = js_and (regPS s) PS_TF
       \<and> js_and (regPS (snd (fnARPL dst src s))) PS_IF = js_and (regPS s) PS_IF
       \<and> js_and (regPS (snd (fnARPL dst src s))) PS_DF = js_and (regPS s) PS_DF"
proof -
  have v: "js_or (js_and dst (js_not SEL_RPL)) (src mod 4) = 4 * (dst div 4) + src mod 4"
    using assms(1,2) by (intro arpl_value) simp_all
  have q: "(4 * (dst div 4) + src mod 4) div 4 = dst div 4" by simp
  have old: "(if dst mod 4 < src mod 4
          then fst (fnARPL dst src s) = 4 * (dst div 4) + src mod 4 \<and> getZF (snd (fnARPL dst src s))
          else fst (fnARPL dst src s) = dst \<and> \<not> getZF (snd (fnARPL dst src s)))
       \<and> fst (fnARPL dst src s) div 4 = dst div 4
       \<and> getCF (snd (fnARPL dst src s)) = getCF s
       \<and> getPF (snd (fnARPL dst src s)) = getPF s
       \<and> getAF (snd (fnARPL dst src s)) = getAF s
       \<and> getSF (snd (fnARPL dst src s)) = getSF s
       \<and> getOF (snd (fnARPL dst src s)) = getOF s"
  proof (cases "dst mod 4 < src mod 4")
    case True
    then show ?thesis
      by (simp add: fnARPL_def Let_def rpl_and v q setZF_def getZF_storeFlag_same storeZF_other getters_nStepCycles)
  next
    case False
    then show ?thesis
      by (simp add: fnARPL_def Let_def rpl_and clearZF_def getZF_storeFlag_same storeZF_other getters_nStepCycles)
  qed
  note ps = fnARPL_regPS[of dst src s] direct_flags_outside_ZF[OF fnARPL_regPS[of dst src s]]
  show ?thesis using old ps by blast
qed

theorem fnARPL_spec_witness:
  "(0::int) \<le> 0x0010 \<and> (0x0010::int) < 65536 \<and> (0::int) \<le> 0x002B \<and> (0x002B::int) < 65536
   \<and> fst (fnARPL 0x0010 0x002B cpu0) = 0x0013 \<and> getZF (snd (fnARPL 0x0010 0x002B cpu0))
   \<and> getCF (snd (fnARPL 0x0010 0x002B cpu0)) = getCF cpu0
   \<and> js_and (regPS (snd (fnARPL 0x0010 0x002B cpu0))) PS_IF = js_and (regPS cpu0) PS_IF"
  using fnARPL_spec[of "0x0010" "0x002B" cpu0] by simp

section \<open>MUL and IMUL\<close>

























section \<open>The real-mode environment, evaluated\<close>

lemma env0_simps:
  "getPS env0 = real_getPS" "getSP env0 = regESP" 
  "setSP env0 = (\<lambda>v s. s\<lparr>regESP := js_and v 0xffff\<rparr>)"
  "pushWord env0 = real_pushWord" "popWord env0 = real_popWord" "setCSIP env0 = real_setCSIP"
  "loadIDT env0 = real_loadIDT" "segLoad env0 = real_segLoad" "PREFETCH env0 = False"
  "checkIntReturn env0 = (\<lambda>a s. s)" "resetRegs env0 = real_resetRegs"
  "getByteDirect env0 = (\<lambda>a s. bus s a)"
  "messageEnabled env0 = (\<lambda>b s. False)" "printMessage env0 = (\<lambda>b s. (False, s))"
  by (simp_all add: env0_def)

lemma js_and_num: "js_and 254 255 = 254" "js_and 256 255 = 0" "js_and (js_sar 254 8) 255 = 0" "js_and (js_sar 256 8) 255 = 1"
  "js_and 254 65535 = 254" "js_and 256 65535 = 256" "js_and 512 512 \<noteq> 0" "js_and 258 65535 = 258"
  by (simp_all add: js_and_def js_sar_def toInt32_def)

lemma fnFaultMessage_quiet:
  assumes "\<And>b t. \<not> messageEnabled e b t"
  shows "fnFaultMessage e v c False s = (False, s)"
  using assms by (simp add: fnFaultMessage_def Let_def split: prod.splits)

lemma fnFaultMessage_env0: "fnFaultMessage env0 v c False s = (False, s)"
  by (rule fnFaultMessage_quiet) (simp add: env0_simps)

section \<open>PUSH SP\<close>

text \<open>
  C6. When the flag PUSHSP is set, the operand \<open>dst\<close> is the value of SP before the push.
  On a model below the 80286 the word handed to \<open>pushWord\<close> is that value minus two,
  reduced to 16 bits; from the 80286 on it is the value itself. In both cases the helper
  returns the decremented value, the cycles are charged and NOWRITE is set.
\<close>

theorem fnPUSHw_pushsp:
  assumes "js_and (opFlags s) OPFLAG_PUSHSP \<noteq> 0"
  shows "fnPUSHw e dst s =
     (let w = (if model s < MODEL_80286 then (dst - 2) mod 65536 else dst);
          s1 = pushWord e w s
      in ((dst - 2) mod 65536,
          s1\<lparr>nStepCycles := nStepCycles s1 -
                  (if regEA s1 = ADDR_INVALID then nOpCyclesPushReg (CYCLES s1)
                   else nOpCyclesPushMem (CYCLES s1)),
              opFlags := js_or (opFlags s1) OPFLAG_NOWRITE\<rparr>))"
  using assms by (simp add: fnPUSHw_def Let_def js_and_65535)

theorem fnPUSHw_pushsp_witness:
  "js_and (opFlags (cpu0\<lparr>opFlags := OPFLAG_PUSHSP\<rparr>)) OPFLAG_PUSHSP \<noteq> 0
   \<and> js_and (opFlags (cpu286\<lparr>opFlags := OPFLAG_PUSHSP\<rparr>)) OPFLAG_PUSHSP \<noteq> 0
   \<and> fst (fnPUSHw env0 0x100 (cpu0\<lparr>opFlags := OPFLAG_PUSHSP\<rparr>)) = 0xFE
   \<and> fst (popWord env0 (snd (fnPUSHw env0 0x100 (cpu0\<lparr>opFlags := OPFLAG_PUSHSP\<rparr>)))) = 0xFE
   \<and> fst (fnPUSHw env0 0x100 (cpu286\<lparr>opFlags := OPFLAG_PUSHSP\<rparr>)) = 0xFE
   \<and> fst (popWord env0 (snd (fnPUSHw env0 0x100 (cpu286\<lparr>opFlags := OPFLAG_PUSHSP\<rparr>)))) = 0x100"
  using fnPUSHw_pushsp[of "cpu0\<lparr>opFlags := OPFLAG_PUSHSP\<rparr>" env0 "0x100"]
        fnPUSHw_pushsp[of "cpu286\<lparr>opFlags := OPFLAG_PUSHSP\<rparr>" env0 "0x100"]
  by (simp add: Let_def env0_def cpu0_def cpu286_def seg0_def real_pushWord_def real_popWord_def
       OPFLAG_PUSHSP_def MODEL_8086_def MODEL_80286_def js_and_num)

section \<open>LEA with a register operand\<close>

text \<open>
  When the operand of LEA is a register (\<open>regEA\<close> is \<open>ADDR_INVALID\<close>), \<open>fnLEA\<close> hands
  the state to the handler of undefined opcodes, charges no cycles of its own and returns the
  destination: no effective address is stored. What happens to the state is what that
  handler does; its body is not in x86.js.
\<close>

lemma fnLEA_register_operand:
  "regEA s = ADDR_INVALID \<Longrightarrow> fnLEA opUndefined dst s = (dst, opUndefined s)"
  by (simp add: fnLEA_def)

section \<open>Far CALL\<close>





section \<open>DIV and IDIV\<close>

lemma fnDIVOverflow_rewinds:
  "fnDIVOverflow e s = fnINT e EXCEPTION_DIV_ERR None 2 (s\<lparr>regLIP := opLIP s\<rparr>)"
  by (simp add: fnDIVOverflow_def setIP_def)

lemma fnDIVw_word_form:
  assumes "0 \<le> regEAX s" "regEAX s < 65536" "0 \<le> regEDX s" "regEDX s < 65536"
    and "0 < dst" "dst < 65536"
  shows "fnDIVw e dst s =
     (let src = regEDX s * 65536 + regEAX s
      in if 65536 \<le> src div dst then (dst, fnDIVOverflow e s)
         else (dst, s\<lparr>regEAX := src div dst, regMD16 := src div dst,
                       regEDX := src mod dst, regMD32 := src mod dst,
                       nStepCycles := nStepCycles s -
                         (if regEA s = ADDR_INVALID then nOpCyclesDivWR (CYCLES s)
                          else nOpCyclesDivWM (CYCLES s)),
                       opFlags := js_or (opFlags s) OPFLAG_NOWRITE\<rparr>))"
proof -
  define src where "src = regEDX s * 65536 + regEAX s"
  have s0: "0 \<le> src" using assms by (simp add: src_def)
  have fl: "\<lfloor>js_div src dst\<rfloor> = src div dst"
    by (simp add: js_div_def floor_divide_of_int_eq)
  have "(65536::int) \<le> \<lfloor>js_div src dst\<rfloor> \<longleftrightarrow> 65536 \<le> js_div src dst" by simp
  then have fl2: "65536 \<le> js_div src dst \<longleftrightarrow> 65536 \<le> src div dst" unfolding fl by simp
  have q0: "0 \<le> src div dst" using s0 assms by (simp add: pos_imp_zdiv_nonneg_iff)
  have r0: "0 \<le> src mod dst" "src mod dst < dst" using assms by simp_all
  have rem: "js_rem src dst = src mod dst" using s0 assms by (simp add: js_rem_def sgn_if)
  have "src mod dst < 65536" using r0 assms by linarith
  then have rm: "js_and (src mod dst) 65535 = src mod dst"
    using r0 by (simp add: js_and_65535)
  have src': "regEAX s + regEDX s * 65536 = src" by (simp add: src_def)
  show ?thesis
  proof (cases "65536 \<le> src div dst")
    case True
    then show ?thesis using assms
      by (simp add: fnDIVw_def Let_def src' fl fl2 src_def[symmetric])
  next
    case False
    then have "js_and (src div dst) 65535 = src div dst" using q0 by (simp add: js_and_65535)
    then show ?thesis using assms False
      by (simp add: fnDIVw_def Let_def src' fl fl2 rem rm src_def[symmetric])
  qed
qed

lemma fnDIVb_raises:
  assumes "0 < dst" "255 * dst < regEAX s"
  shows "fnDIVb e dst s = (dst, fnDIVOverflow e s)"
proof -
  have "rat_of_int (255 * dst) < rat_of_int (regEAX s)" using assms(2) by (simp only: of_int_less_iff)
  then have "255 < js_div (regEAX s) dst"
    using assms(1) by (simp add: js_div_def pos_less_divide_eq)
  then show ?thesis using assms(1) by (simp add: fnDIVb_def Let_def)
qed

lemma truncRat_js_div:
  "truncRat (js_div a b) = (if 0 \<le> js_div a b then a div b else - ((- a) div b))"
proof -
  have "\<lceil>rat_of_int a / rat_of_int b\<rceil> = - \<lfloor>rat_of_int (- a) / rat_of_int b\<rfloor>"
    by (simp add: ceiling_def)
  then show ?thesis
    by (simp add: truncRat_def js_div_def floor_divide_of_int_eq del: of_int_minus)
qed

lemma fnIDIVb_examples:
  "fnIDIVb env0 2 (cpu0\<lparr>regEAX := 0x0005\<rparr>) = (2, fnDIVOverflow env0 (cpu0\<lparr>regEAX := 0x0005\<rparr>))"
  "regEAX (snd (fnIDIVb env0 1 (cpu0\<lparr>regEAX := 0xFC18\<rparr>))) = 0x0018"
proof -
  have a: "js_sar (js_shl 5 16) 16 = 5" "js_sar (js_shl 2 24) 24 = 2" "js_sar (js_shl 1 24) 24 = 1"
     "js_sar (js_shl 0xFC18 16) 16 = - 1000" "js_sar (js_shl (- 1000) 24) 24 = 24"
     "js_and (- 1000) 255 = 24" "js_and 1 65535 = 1" "js_and 0 65535 = 0" "js_rem (- 1000) 1 = 0"
     "js_and 0 255 = 0" "js_shl 0 8 = 0" "js_or 24 0 = 24"
    by (simp_all add: js_sar_def js_shl_def js_and_def js_or_def js_rem_def toInt32_def)
  have b: "truncRat (js_div 5 2) = 2" "truncRat (js_div (- 1000) 1) = - 1000"
    unfolding truncRat_js_div by (simp_all add: js_div_def)
  have c: "(2::rat) < js_div 5 2" "\<not> (24::rat) < js_div (- 1000) 1"
    by (simp_all add: js_div_def)
  show "fnIDIVb env0 2 (cpu0\<lparr>regEAX := 0x0005\<rparr>) = (2, fnDIVOverflow env0 (cpu0\<lparr>regEAX := 0x0005\<rparr>))"
    by (simp add: fnIDIVb_def Let_def a b c)
  show "regEAX (snd (fnIDIVb env0 1 (cpu0\<lparr>regEAX := 0xFC18\<rparr>))) = 0x0018"
    by (simp add: fnIDIVb_def Let_def a b c)
qed

text \<open>
  C2 does not hold of the byte form. \<open>fnDIVb\<close> compares the unrounded quotient with 0xff
  (\<open>fnDIVw\<close> rounds it down first, see \<open>fnDIVw_word_form\<close>), so every dividend above
  \<open>255 * dst\<close> is refused (\<open>fnDIVb_raises\<close>). At AX = 0x01FF and divisor 2 the quotient
  255 fits in AL, yet the helper takes the path of the divide error: IP is rewound to the
  instruction (offset 3), three words are pushed, the handler of vector 0 is entered, and
  AX is as it was.
\<close>

theorem fnDIVb_fitting_quotient_raises:
  "fnDIVb env0 2 (cpu0\<lparr>regEAX := 0x01FF\<rparr>) = (2, fnDIVOverflow env0 (cpu0\<lparr>regEAX := 0x01FF\<rparr>))
   \<and> (0x01FF :: int) div 2 = 0xFF
   \<and> regEAX (snd (fnDIVb env0 2 (cpu0\<lparr>regEAX := 0x01FF\<rparr>))) = 0x01FF
   \<and> regLIP (snd (fnDIVb env0 2 (cpu0\<lparr>regEAX := 0x01FF\<rparr>))) = 0
   \<and> regESP (snd (fnDIVb env0 2 (cpu0\<lparr>regEAX := 0x01FF\<rparr>))) = 0xFA
   \<and> fst (popWord env0 (snd (fnDIVb env0 2 (cpu0\<lparr>regEAX := 0x01FF\<rparr>)))) = 0x0003"
proof -
  have a: "fnDIVb env0 2 (cpu0\<lparr>regEAX := 0x01FF\<rparr>) = (2, fnDIVOverflow env0 (cpu0\<lparr>regEAX := 0x01FF\<rparr>))"
    by (simp add: fnDIVb_def Let_def js_div_def)
  have b: "regEAX (fnDIVOverflow env0 (cpu0\<lparr>regEAX := 0x01FF\<rparr>)) = 0x01FF"
    "regLIP (fnDIVOverflow env0 (cpu0\<lparr>regEAX := 0x01FF\<rparr>)) = 0"
    "regESP (fnDIVOverflow env0 (cpu0\<lparr>regEAX := 0x01FF\<rparr>)) = 0xFA"
    "fst (popWord env0 (fnDIVOverflow env0 (cpu0\<lparr>regEAX := 0x01FF\<rparr>))) = 0x0003"
    by (simp_all add: fnDIVOverflow_def fnINT_def Let_def env0_simps setIP_def getCS_def getIP_def
         cpu0_def seg0_def real_loadIDT_def real_pushWord_def real_popWord_def real_getPS_def 
         ADDR_INVALID_def EXCEPTION_DIV_ERR_def
         js_and_def js_or_def js_sar_def toInt32_def split: prod.splits)
  show ?thesis unfolding a using b by simp
qed

section \<open>The fault dispatcher\<close>

lemma setIP_opLIP: "regLIP (setIP (opLIP s - seg_base (segCS s)) s) = opLIP s"
  by (simp add: setIP_def)

lemmas eval_env0 =
  fnINT_def Let_def env0_simps setIP_def getCS_def getIP_def cpu286_def cpu0_def seg0_def
  real_loadIDT_def real_pushWord_def real_popWord_def real_getPS_def real_resetRegs_def
  ADDR_INVALID_def EXCEPTION_GP_FAULT_def EXCEPTION_DF_FAULT_def
  MODEL_80286_def MODEL_80186_def MODEL_8086_def
  js_and_def js_or_def js_not_def js_sar_def toInt32_def

text \<open>
  C4, as amended. With the CPU complete (\<open>aFlags.fComplete\<close>), on a model from the 80186
  on: with no fault in flight the dispatcher restores IP to \<open>opLIP\<close> and dispatches the
  original vector and error code; with a fault in flight that is not the double fault it
  dispatches vector 0x08 with error code 0, without restoring IP; with the double fault in
  flight it resets the CPU. Either dispatch is left out when \<open>fnFaultMessage\<close> blocks it
  by returning true, and both cases end by clearing NOREAD and NOWRITE. With the CPU complete
  on a model below the 80186, the dispatcher calls \<open>fnFaultMessage\<close> and clears NOREAD and
  NOWRITE, and that is all: nothing is dispatched and IP is not restored. With the CPU not
  complete it prints a warning and restores IP to \<open>opLIP\<close>, and that is all.
\<close>

theorem fnFault_dispatch:
  "(fComplete s \<and> MODEL_80186 \<le> model s \<and> nFault s < 0 \<longrightarrow>
        regLIP (setIP (opLIP s - seg_base (segCS s)) s) = opLIP s \<and>
        fnFault e v c h s =
          (let m = fnFaultMessage e v c h (setIP (opLIP s - seg_base (segCS s)) s);
               t = (if fst m then snd m else fnINT e v c 0 ((snd m)\<lparr>nFault := v\<rparr>))
           in t\<lparr>opFlags := js_and (opFlags t) (js_not (js_or OPFLAG_NOREAD OPFLAG_NOWRITE))\<rparr>))
   \<and> (fComplete s \<and> MODEL_80186 \<le> model s \<and> 0 \<le> nFault s \<and> nFault s \<noteq> EXCEPTION_DF_FAULT \<longrightarrow>
        fnFault e v c h s =
          (let m = fnFaultMessage e EXCEPTION_DF_FAULT (Some 0) h s;
               t = (if fst m then snd m
                    else fnINT e EXCEPTION_DF_FAULT (Some 0) 0 ((snd m)\<lparr>nFault := EXCEPTION_DF_FAULT\<rparr>))
           in t\<lparr>opFlags := js_and (opFlags t) (js_not (js_or OPFLAG_NOREAD OPFLAG_NOWRITE))\<rparr>))
   \<and> (fComplete s \<and> MODEL_80186 \<le> model s \<and> nFault s = EXCEPTION_DF_FAULT \<longrightarrow>
        fnFault e v c h s = resetRegs e (snd (fnFaultMessage e (- 1) (Some 0) h s)))
   \<and> (fComplete s \<and> model s < MODEL_80186 \<longrightarrow>
        fnFault e v c h s =
          (let t = snd (fnFaultMessage e v c h s)
           in t\<lparr>opFlags := js_and (opFlags t) (js_not (js_or OPFLAG_NOREAD OPFLAG_NOWRITE))\<rparr>))
   \<and> (\<not> fComplete s \<longrightarrow>
        fnFault e v c h s =
          (let t = snd (printMessage e (Messages_WARN e) s)
           in setIP (opLIP t - seg_base (segCS t)) t))"
proof (intro conjI impI)
  assume "fComplete s \<and> MODEL_80186 \<le> model s \<and> nFault s < 0"
  show "regLIP (setIP (opLIP s - seg_base (segCS s)) s) = opLIP s" by (rule setIP_opLIP)
next
  assume a: "fComplete s \<and> MODEL_80186 \<le> model s \<and> nFault s < 0"
  obtain hl s2 where m: "fnFaultMessage e v c h (setIP (opLIP s - seg_base (segCS s)) s) = (hl, s2)"
    by (cases "fnFaultMessage e v c h (setIP (opLIP s - seg_base (segCS s)) s)")
  show "fnFault e v c h s =
          (let m = fnFaultMessage e v c h (setIP (opLIP s - seg_base (segCS s)) s);
               t = (if fst m then snd m else fnINT e v c 0 ((snd m)\<lparr>nFault := v\<rparr>))
           in t\<lparr>opFlags := js_and (opFlags t) (js_not (js_or OPFLAG_NOREAD OPFLAG_NOWRITE))\<rparr>)"
    using a unfolding m by (simp add: fnFault_def Let_def m)
next
  assume a: "fComplete s \<and> MODEL_80186 \<le> model s \<and> 0 \<le> nFault s \<and> nFault s \<noteq> EXCEPTION_DF_FAULT"
  obtain hl s2 where m: "fnFaultMessage e EXCEPTION_DF_FAULT (Some 0) h s = (hl, s2)"
    by (cases "fnFaultMessage e EXCEPTION_DF_FAULT (Some 0) h s")
  show "fnFault e v c h s =
          (let m = fnFaultMessage e EXCEPTION_DF_FAULT (Some 0) h s;
               t = (if fst m then snd m
                    else fnINT e EXCEPTION_DF_FAULT (Some 0) 0 ((snd m)\<lparr>nFault := EXCEPTION_DF_FAULT\<rparr>))
           in t\<lparr>opFlags := js_and (opFlags t) (js_not (js_or OPFLAG_NOREAD OPFLAG_NOWRITE))\<rparr>)"
    using a unfolding m by (simp add: fnFault_def Let_def m)
next
  assume a: "fComplete s \<and> MODEL_80186 \<le> model s \<and> nFault s = EXCEPTION_DF_FAULT"
  then have "\<not> nFault s < 0" by (simp add: EXCEPTION_DF_FAULT_def)
  then show "fnFault e v c h s = resetRegs e (snd (fnFaultMessage e (- 1) (Some 0) h s))"
    using a by (simp add: fnFault_def Let_def)
next
  assume a: "fComplete s \<and> model s < MODEL_80186"
  obtain hl s2 where m: "fnFaultMessage e v c h s = (hl, s2)"
    by (cases "fnFaultMessage e v c h s")
  show "fnFault e v c h s =
          (let t = snd (fnFaultMessage e v c h s)
           in t\<lparr>opFlags := js_and (opFlags t) (js_not (js_or OPFLAG_NOREAD OPFLAG_NOWRITE))\<rparr>)"
    using a unfolding m by (simp add: fnFault_def Let_def m)
next
  assume "\<not> fComplete s"
  then show "fnFault e v c h s =
          (let t = snd (printMessage e (Messages_WARN e) s)
           in setIP (opLIP t - seg_base (segCS t)) t)"
    by (simp add: fnFault_def Let_def)
qed

lemma env0_stop: "stopCPU env0 = (\<lambda>s. s\<lparr>fStopped := True\<rparr>)" "dbgStopCPU env0 = (\<lambda>s. s\<lparr>fStopped := True\<rparr>)"
  "Messages_FAULT env0 = 0x40" "Messages_CPU env0 = 1" "Messages_HALT env0 = 0x20000000"
  "Messages_WARN env0 = 0x40000000"
  by (simp_all add: env0_def)

theorem fnFault_dispatch_witness:
  "fComplete cpu286 \<and> MODEL_80186 \<le> model cpu286 \<and> nFault cpu286 < 0
   \<and> \<not> fst (fnFaultMessage env0 EXCEPTION_GP_FAULT (Some 0x18) False
              (setIP (opLIP cpu286 - seg_base (segCS cpu286)) cpu286))
   \<and> regLIP (fnFault env0 EXCEPTION_GP_FAULT (Some 0x18) False cpu286) = 0x0D00
   \<and> fst (popWord env0 (fnFault env0 EXCEPTION_GP_FAULT (Some 0x18) False cpu286)) = 0x18
   \<and> fst (popWord env0 (snd (popWord env0
            (fnFault env0 EXCEPTION_GP_FAULT (Some 0x18) False cpu286)))) = 0x0003
   \<and> regLIP (fnFault env0 0x0B (Some 0x20) False (cpu286\<lparr>nFault := 0x0D\<rparr>)) = 0x0800
   \<and> fst (popWord env0 (fnFault env0 0x0B (Some 0x20) False (cpu286\<lparr>nFault := 0x0D\<rparr>))) = 0
   \<and> fst (popWord env0 (snd (popWord env0
            (fnFault env0 0x0B (Some 0x20) False (cpu286\<lparr>nFault := 0x0D\<rparr>))))) = 0x0005
   \<and> regLIP (fnFault env0 0x0B (Some 0x20) False (cpu286\<lparr>nFault := 0x08\<rparr>)) = 0xFFFF0
   \<and> fComplete cpu0 \<and> model cpu0 < MODEL_80186
   \<and> fnFault env0 0x0B (Some 0x20) False cpu0 = cpu0
   \<and> \<not> fComplete (cpu286\<lparr>fComplete := False\<rparr>)
   \<and> fnFault env0 0x0B (Some 0x20) False (cpu286\<lparr>fComplete := False\<rparr>)
        = cpu286\<lparr>fComplete := False, regLIP := opLIP cpu286\<rparr>"
proof -
  have h: "fComplete cpu286 \<and> MODEL_80186 \<le> model cpu286 \<and> nFault cpu286 < 0"
    "fComplete (cpu286\<lparr>nFault := 0x0D\<rparr>) \<and> MODEL_80186 \<le> model (cpu286\<lparr>nFault := 0x0D\<rparr>) \<and>
     0 \<le> nFault (cpu286\<lparr>nFault := 0x0D\<rparr>) \<and> nFault (cpu286\<lparr>nFault := 0x0D\<rparr>) \<noteq> EXCEPTION_DF_FAULT"
    "fComplete (cpu286\<lparr>nFault := 0x08\<rparr>) \<and> MODEL_80186 \<le> model (cpu286\<lparr>nFault := 0x08\<rparr>) \<and>
     nFault (cpu286\<lparr>nFault := 0x08\<rparr>) = EXCEPTION_DF_FAULT"
    "fComplete cpu0 \<and> model cpu0 < MODEL_80186"
    "\<not> fComplete (cpu286\<lparr>fComplete := False\<rparr>)"
    by (simp_all add: cpu286_def cpu0_def MODEL_80186_def MODEL_80286_def MODEL_8086_def
          EXCEPTION_DF_FAULT_def)
  have q: "fst (fnFaultMessage env0 n c False t) = False" "snd (fnFaultMessage env0 n c False t) = t" for n c t
    by (simp_all add: fnFaultMessage_env0)
  note a = fnFault_dispatch[of cpu286 env0 EXCEPTION_GP_FAULT "Some 0x18" False]
  note b = fnFault_dispatch[of "cpu286\<lparr>nFault := 0x0D\<rparr>" env0 "0x0B" "Some 0x20" False]
  note c = fnFault_dispatch[of "cpu286\<lparr>nFault := 0x08\<rparr>" env0 "0x0B" "Some 0x20" False]
  note d = fnFault_dispatch[of cpu0 env0 "0x0B" "Some 0x20" False]
  note f = fnFault_dispatch[of "cpu286\<lparr>fComplete := False\<rparr>" env0 "0x0B" "Some 0x20" False]
  have a1: "fnFault env0 EXCEPTION_GP_FAULT (Some 0x18) False cpu286 =
      (let t = fnINT env0 EXCEPTION_GP_FAULT (Some 0x18) 0
                 ((setIP (opLIP cpu286 - seg_base (segCS cpu286)) cpu286)\<lparr>nFault := EXCEPTION_GP_FAULT\<rparr>)
       in t\<lparr>opFlags := js_and (opFlags t) (js_not (js_or OPFLAG_NOREAD OPFLAG_NOWRITE))\<rparr>)"
    using a h(1) by (simp only: q Let_def if_False simp_thms)
  have b1: "fnFault env0 0x0B (Some 0x20) False (cpu286\<lparr>nFault := 0x0D\<rparr>) =
      (let t = fnINT env0 EXCEPTION_DF_FAULT (Some 0) 0
                 (cpu286\<lparr>nFault := 0x0D\<rparr>\<lparr>nFault := EXCEPTION_DF_FAULT\<rparr>)
       in t\<lparr>opFlags := js_and (opFlags t) (js_not (js_or OPFLAG_NOREAD OPFLAG_NOWRITE))\<rparr>)"
    using b h(2) by (simp only: q Let_def if_False simp_thms)
  have c1: "fnFault env0 0x0B (Some 0x20) False (cpu286\<lparr>nFault := 0x08\<rparr>) =
      resetRegs env0 (cpu286\<lparr>nFault := 0x08\<rparr>)"
    using c h(3) by (simp only: q simp_thms)
  have d1: "fnFault env0 0x0B (Some 0x20) False cpu0 =
      (let t = cpu0
       in t\<lparr>opFlags := js_and (opFlags t) (js_not (js_or OPFLAG_NOREAD OPFLAG_NOWRITE))\<rparr>)"
    using d h(4) by (simp only: q simp_thms)
  have f1: "fnFault env0 0x0B (Some 0x20) False (cpu286\<lparr>fComplete := False\<rparr>) =
      (let t = snd (printMessage env0 (Messages_WARN env0) (cpu286\<lparr>fComplete := False\<rparr>))
       in setIP (opLIP t - seg_base (segCS t)) t)"
    using f h(5) by (simp only: simp_thms)
  have a': "regLIP (fnFault env0 EXCEPTION_GP_FAULT (Some 0x18) False cpu286) = 0x0D00
   \<and> fst (popWord env0 (fnFault env0 EXCEPTION_GP_FAULT (Some 0x18) False cpu286)) = 0x18
   \<and> fst (popWord env0 (snd (popWord env0
            (fnFault env0 EXCEPTION_GP_FAULT (Some 0x18) False cpu286)))) = 0x0003"
    unfolding a1 by (simp add: eval_env0)
  have b': "regLIP (fnFault env0 0x0B (Some 0x20) False (cpu286\<lparr>nFault := 0x0D\<rparr>)) = 0x0800
   \<and> fst (popWord env0 (fnFault env0 0x0B (Some 0x20) False (cpu286\<lparr>nFault := 0x0D\<rparr>))) = 0
   \<and> fst (popWord env0 (snd (popWord env0
            (fnFault env0 0x0B (Some 0x20) False (cpu286\<lparr>nFault := 0x0D\<rparr>))))) = 0x0005"
    unfolding b1 by (simp add: eval_env0)
  have c': "regLIP (fnFault env0 0x0B (Some 0x20) False (cpu286\<lparr>nFault := 0x08\<rparr>)) = 0xFFFF0"
    unfolding c1 by (simp add: eval_env0)
  have d': "fnFault env0 0x0B (Some 0x20) False cpu0 = cpu0"
    unfolding d1 by (simp add: cpu0_def js_and_def js_or_def js_not_def toInt32_def
          OPFLAG_NOREAD_def OPFLAG_NOWRITE_def)
  have f': "fnFault env0 0x0B (Some 0x20) False (cpu286\<lparr>fComplete := False\<rparr>)
        = cpu286\<lparr>fComplete := False, regLIP := opLIP cpu286\<rparr>"
    unfolding f1 by (simp add: env0_simps setIP_def cpu286_def cpu0_def seg0_def)
  show ?thesis using h(1,4,5) q(1) a' b' c' d' f' by simp
qed

text \<open>
  C4, as stated, fails in three ways, each behind a test that the dispatcher makes before
  it dispatches. Below the 80186 (\<open>model >= MODEL_80186\<close>): on the 8086 of the examples,
  with no fault in flight, a fault leaves the state as it is, IP not restored and nothing
  dispatched. With the CPU not complete (\<open>aFlags.fComplete\<close>): on the 80286 with fault 0x0D
  in flight, a second fault only restores IP; no double fault is dispatched. With the
  dispatch blocked (\<open>fnFaultMessage\<close> returns true, here because the caller asks for a
  halt): on the 80286 with no fault in flight, IP is restored and the CPU stopped, and the
  vector is not dispatched.
\<close>

theorem fnFault_dispatch_counterexample:
  "nFault cpu0 < 0 \<and> fComplete cpu0
   \<and> fnFault env0 EXCEPTION_GP_FAULT (Some 0) False cpu0 = cpu0
   \<and> regLIP (fnFault env0 EXCEPTION_GP_FAULT (Some 0) False cpu0) \<noteq> opLIP cpu0
   \<and> 0 \<le> nFault (cpu286\<lparr>fComplete := False, nFault := 0x0D\<rparr>)
   \<and> nFault (cpu286\<lparr>fComplete := False, nFault := 0x0D\<rparr>) \<noteq> EXCEPTION_DF_FAULT
   \<and> fnFault env0 0x0B (Some 0x20) False (cpu286\<lparr>fComplete := False, nFault := 0x0D\<rparr>)
        = cpu286\<lparr>fComplete := False, nFault := 0x0D, regLIP := opLIP cpu286\<rparr>
   \<and> nFault cpu286 < 0 \<and> fComplete cpu286
   \<and> fnFault env0 EXCEPTION_GP_FAULT (Some 0x18) True cpu286
        = cpu286\<lparr>regLIP := opLIP cpu286, fStopped := True\<rparr>"
proof -
  have a: "fnFault env0 EXCEPTION_GP_FAULT (Some 0) False cpu0 = cpu0"
    by (simp add: fnFault_def fnFaultMessage_env0 Let_def cpu0_def MODEL_80186_def MODEL_8086_def
          js_and_def js_or_def js_not_def toInt32_def OPFLAG_NOREAD_def OPFLAG_NOWRITE_def)
  have b: "fnFault env0 0x0B (Some 0x20) False (cpu286\<lparr>fComplete := False, nFault := 0x0D\<rparr>)
        = cpu286\<lparr>fComplete := False, nFault := 0x0D, regLIP := opLIP cpu286\<rparr>"
    by (simp add: fnFault_def Let_def env0_simps setIP_def cpu286_def cpu0_def seg0_def)
  have c: "fnFault env0 EXCEPTION_GP_FAULT (Some 0x18) True cpu286
        = cpu286\<lparr>regLIP := opLIP cpu286, fStopped := True\<rparr>"
    by (simp add: fnFault_def fnFaultMessage_def Let_def env0_simps env0_stop setIP_def
          cpu286_def cpu0_def seg0_def MODEL_80186_def MODEL_80286_def MODEL_8086_def OPCODE_INT3_def
          js_and_def js_or_def js_not_def toInt32_def OPFLAG_NOREAD_def OPFLAG_NOWRITE_def)
  show ?thesis unfolding a b c
    by (simp add: cpu286_def cpu0_def EXCEPTION_DF_FAULT_def)
qed

section \<open>Far return to an outer privilege level\<close>

lemma retfMustNull_cong:
  "segCS t = segCS u \<Longrightarrow> retfMustNull g t = retfMustNull g u"
  by (simp add: retfMustNull_def)

lemma nullLoadFrame_env_outer: "nullLoadFrame env_outer"
  by (simp add: nullLoadFrame_def env_outer_def env0_def real_segLoad_def)

lemmas eval_ret =
  env_outer_def env0_def cpu_ret_def cpu386_def cpu0_def seg0_def real_popWord_def real_segLoad_def
  outer_setCSIP_def retfMustNull_def SEL_RPL_def SEL_MASK_def ACC_TYPE_CODE_CONFORMING_def
  js_and_def js_shl_def js_sar_def toInt32_def

lemma nullSelector_mask: "nullSelector sel \<Longrightarrow> js_and sel SEL_MASK = 0"
proof -
  assume "nullSelector sel"
  then have z: "js_and sel 0xFFFC = 0"
    by (simp add: nullSelector_def js_or_def SEL_MASK_def SEL_LDT_def toInt32_def)
  have m: "js_and 0xFFFC SEL_MASK = SEL_MASK"
    by (simp add: js_and_def SEL_MASK_def toInt32_def)
  have "js_and sel SEL_MASK = js_and sel (js_and 0xFFFC SEL_MASK)" by (simp only: m)
  also have "\<dots> = js_and (js_and sel 0xFFFC) SEL_MASK" by (rule js_and_js_and[symmetric])
  also have "\<dots> = 0" unfolding z by (simp add: js_and_def toInt32_def)
  finally show ?thesis .
qed

text \<open>
  C8, as amended. Let a far return pop IP and CS, release \<open>n\<close> bytes, and let the load of
  CS report a stack switch (the privilege level was lowered); \<open>s5\<close> is the state after
  the bytes are released on the new stack too, and the new CPL is that of CS in \<open>s5\<close>.
  Then each of DS and ES whose selector has a non-zero index, whose DPL is below the new CPL
  and whose access word is not that of a conforming code segment ends with the null selector;
  each of DS and ES that holds a null selector, or whose DPL is not below the new CPL, or
  whose access word is that of a conforming code segment, ends as it was in \<open>s5\<close>. FS and
  GS are not examined: they end as they were in \<open>s5\<close>. Nothing is said here of DS or ES
  holding one of the selectors 4 to 7.
\<close>

theorem fnRETF_nulls_DS_ES:
  assumes "nullLoadFrame e"
    and "popWord e s = (regEIP, s1)" "popWord e s1 = (regCS, s2)"
    and "n1 = js_shl n (js_sar (dataSize s2) 2)"
    and "s3 = (if n1 \<noteq> 0 then setSP e (getSP e s2 + n1) s2 else s2)"
    and "setCSIP e regEIP regCS False s3 = (Some True, s4)"
    and "s5 = (if n1 \<noteq> 0 then setSP e (getSP e s4 + n1) s4 else s4)"
  shows "(js_and (seg_sel (segDS s5)) SEL_MASK \<noteq> 0 \<and> seg_dpl (segDS s5) < seg_cpl (segCS s5) \<and>
          js_and (seg_acc (segDS s5)) ACC_TYPE_CODE_CONFORMING \<noteq> ACC_TYPE_CODE_CONFORMING
            \<longrightarrow> seg_sel (segDS (fnRETF e n s)) = 0)
       \<and> (nullSelector (seg_sel (segDS s5)) \<or> \<not> seg_dpl (segDS s5) < seg_cpl (segCS s5) \<or>
          js_and (seg_acc (segDS s5)) ACC_TYPE_CODE_CONFORMING = ACC_TYPE_CODE_CONFORMING
            \<longrightarrow> segDS (fnRETF e n s) = segDS s5)
       \<and> (js_and (seg_sel (segES s5)) SEL_MASK \<noteq> 0 \<and> seg_dpl (segES s5) < seg_cpl (segCS s5) \<and>
          js_and (seg_acc (segES s5)) ACC_TYPE_CODE_CONFORMING \<noteq> ACC_TYPE_CODE_CONFORMING
            \<longrightarrow> seg_sel (segES (fnRETF e n s)) = 0)
       \<and> (nullSelector (seg_sel (segES s5)) \<or> \<not> seg_dpl (segES s5) < seg_cpl (segCS s5) \<or>
          js_and (seg_acc (segES s5)) ACC_TYPE_CODE_CONFORMING = ACC_TYPE_CODE_CONFORMING
            \<longrightarrow> segES (fnRETF e n s) = segES s5)
       \<and> segFS (fnRETF e n s) = segFS s5 \<and> segGS (fnRETF e n s) = segGS s5"
proof -
  define s6 where "s6 = (if retfMustNull (segDS s5) s5 then segLoad e SEG_DS 0 s5 else s5)"
  define s7 where "s7 = (if retfMustNull (segES s6) s6 then segLoad e SEG_ES 0 s6 else s6)"
  define s9 where "s9 = (if n1 = 2 \<and> cIntReturn s7 \<noteq> 0 then checkIntReturn e (regLIP s7) s7 else s7)"
  have r: "fnRETF e n s = s9"
    apply (simp only: fnRETF_def assms(2) assms(3) prod.case Let_def)
    apply (simp only: assms(4)[symmetric])
    apply (simp only: assms(5)[symmetric] assms(6) prod.case)
    apply (simp only: assms(7)[symmetric] simp_thms if_True)
    apply (simp only: s6_def[symmetric])
    apply (simp only: s7_def[symmetric])
    apply (simp only: s9_def[symmetric])
    done
  have fD: "\<And>t. seg_sel (segDS (segLoad e SEG_DS 0 t)) = 0" "\<And>t. segES (segLoad e SEG_DS 0 t) = segES t"
    "\<And>t. segFS (segLoad e SEG_DS 0 t) = segFS t" "\<And>t. segGS (segLoad e SEG_DS 0 t) = segGS t"
    "\<And>t. segCS (segLoad e SEG_DS 0 t) = segCS t"
    and fE: "\<And>t. seg_sel (segES (segLoad e SEG_ES 0 t)) = 0" "\<And>t. segDS (segLoad e SEG_ES 0 t) = segDS t"
    "\<And>t. segFS (segLoad e SEG_ES 0 t) = segFS t" "\<And>t. segGS (segLoad e SEG_ES 0 t) = segGS t"
    "\<And>t. segCS (segLoad e SEG_ES 0 t) = segCS t"
    and fC: "\<And>a t. segDS (checkIntReturn e a t) = segDS t" "\<And>a t. segES (checkIntReturn e a t) = segES t"
    "\<And>a t. segFS (checkIntReturn e a t) = segFS t" "\<And>a t. segGS (checkIntReturn e a t) = segGS t"
    using assms(1) unfolding nullLoadFrame_def by blast+
  have c6: "segCS s6 = segCS s5" and e6: "segES s6 = segES s5"
    and f6: "segFS s6 = segFS s5" and g6: "segGS s6 = segGS s5"
    by (simp_all add: s6_def fD)
  have d6: "if retfMustNull (segDS s5) s5 then seg_sel (segDS s6) = 0 else segDS s6 = segDS s5"
    by (simp add: s6_def fD)
  have m: "retfMustNull (segES s6) s6 = retfMustNull (segES s5) s5"
    unfolding e6 by (rule retfMustNull_cong[OF c6])
  have d7: "segDS s7 = segDS s6" and f7: "segFS s7 = segFS s6" and g7: "segGS s7 = segGS s6"
    by (simp_all add: s7_def fE)
  have e7: "if retfMustNull (segES s5) s5 then seg_sel (segES s7) = 0 else segES s7 = segES s5"
    unfolding s7_def m by (simp add: fE e6)
  have k: "segDS s9 = segDS s7" "segES s9 = segES s7" "segFS s9 = segFS s7" "segGS s9 = segGS s7"
    by (simp_all add: s9_def fC)
  have code: "(if retfMustNull (segDS s5) s5 then seg_sel (segDS (fnRETF e n s)) = 0
          else segDS (fnRETF e n s) = segDS s5)
       \<and> (if retfMustNull (segES s5) s5 then seg_sel (segES (fnRETF e n s)) = 0
          else segES (fnRETF e n s) = segES s5)
       \<and> segFS (fnRETF e n s) = segFS s5 \<and> segGS (fnRETF e n s) = segGS s5"
    unfolding r k d7 f7 g7 f6 g6 using d6 e7 by simp
  have nD: "nullSelector (seg_sel (segDS s5)) \<Longrightarrow> \<not> retfMustNull (segDS s5) s5"
    and nE: "nullSelector (seg_sel (segES s5)) \<Longrightarrow> \<not> retfMustNull (segES s5) s5"
    by (simp_all add: retfMustNull_def nullSelector_mask)
  show ?thesis using code nD nE unfolding retfMustNull_def by (auto split: if_splits)
qed

theorem fnRETF_nulls_DS_ES_witness:
  "nullLoadFrame env_outer
   \<and> seg_cpl (segCS cpu_ret) = 0 \<and> seg_cpl (segCS (fnRETF env_outer 0 cpu_ret)) = 3
   \<and> seg_sel (segDS (fnRETF env_outer 0 cpu_ret)) = 0
   \<and> segES (fnRETF env_outer 0 cpu_ret) = segES cpu_ret
   \<and> segFS (fnRETF env_outer 0 cpu_ret) = segFS cpu_ret
   \<and> segGS (fnRETF env_outer 0 cpu_ret) = segGS cpu_ret"
proof -
  define s2 where "s2 = snd (real_popWord (snd (real_popWord cpu_ret)))"
  define s4 where "s4 = snd (outer_setCSIP 0x20 0x1B False s2)"
  have p1: "popWord env_outer cpu_ret = (0x20, snd (real_popWord cpu_ret))"
    by (simp add: eval_ret)
  have p2: "popWord env_outer (snd (real_popWord cpu_ret)) = (0x1B, s2)"
    by (simp add: s2_def eval_ret)
  have n1: "(0::int) = js_shl 0 (js_sar (dataSize s2) 2)"
    by (simp add: s2_def eval_ret)
  have p3: "setCSIP env_outer 0x20 0x1B False s2 = (Some True, s4)"
    by (simp add: s4_def s2_def eval_ret)
  have t: "(js_and (seg_sel (segDS s4)) SEL_MASK \<noteq> 0 \<and> seg_dpl (segDS s4) < seg_cpl (segCS s4) \<and>
          js_and (seg_acc (segDS s4)) ACC_TYPE_CODE_CONFORMING \<noteq> ACC_TYPE_CODE_CONFORMING
            \<longrightarrow> seg_sel (segDS (fnRETF env_outer 0 cpu_ret)) = 0)
       \<and> (nullSelector (seg_sel (segDS s4)) \<or> \<not> seg_dpl (segDS s4) < seg_cpl (segCS s4) \<or>
          js_and (seg_acc (segDS s4)) ACC_TYPE_CODE_CONFORMING = ACC_TYPE_CODE_CONFORMING
            \<longrightarrow> segDS (fnRETF env_outer 0 cpu_ret) = segDS s4)
       \<and> (js_and (seg_sel (segES s4)) SEL_MASK \<noteq> 0 \<and> seg_dpl (segES s4) < seg_cpl (segCS s4) \<and>
          js_and (seg_acc (segES s4)) ACC_TYPE_CODE_CONFORMING \<noteq> ACC_TYPE_CODE_CONFORMING
            \<longrightarrow> seg_sel (segES (fnRETF env_outer 0 cpu_ret)) = 0)
       \<and> (nullSelector (seg_sel (segES s4)) \<or> \<not> seg_dpl (segES s4) < seg_cpl (segCS s4) \<or>
          js_and (seg_acc (segES s4)) ACC_TYPE_CODE_CONFORMING = ACC_TYPE_CODE_CONFORMING
            \<longrightarrow> segES (fnRETF env_outer 0 cpu_ret) = segES s4)
       \<and> segFS (fnRETF env_outer 0 cpu_ret) = segFS s4 \<and> segGS (fnRETF env_outer 0 cpu_ret) = segGS s4"
    by (rule fnRETF_nulls_DS_ES[OF nullLoadFrame_env_outer p1 p2 n1 _ p3]) simp_all
  have c: "js_and (seg_sel (segDS s4)) SEL_MASK \<noteq> 0" "seg_dpl (segDS s4) < seg_cpl (segCS s4)"
    "js_and (seg_acc (segDS s4)) ACC_TYPE_CODE_CONFORMING \<noteq> ACC_TYPE_CODE_CONFORMING"
    "\<not> seg_dpl (segES s4) < seg_cpl (segCS s4)"
    "segES s4 = segES cpu_ret" "segFS s4 = segFS cpu_ret" "segGS s4 = segGS cpu_ret"
    by (simp_all add: s4_def s2_def eval_ret)
  have d: "seg_cpl (segCS cpu_ret) = 0" "seg_cpl (segCS (fnRETF env_outer 0 cpu_ret)) = 3"
    by (simp_all add: fnRETF_def Let_def eval_ret)
  show ?thesis using t c d nullLoadFrame_env_outer by simp
qed

text \<open>
  C8, as stated, fails twice. FS and GS are not examined: after the return of the example
  from CPL 0 to CPL 3 on an 80386, FS and GS still hold selectors 0x10 and 0x18 of data
  segments of DPL 0; both are not null, of a DPL below the new CPL and not conforming code,
  and neither has been loaded with the null selector. And the selectors 4 to 7 are not null,
  but the test of \<open>fnRETF\<close> takes them for null: in the same return, DS holding selector
  0x0004 with DPL 0 is left as it is.
\<close>

theorem fnRETF_nulls_DS_ES_counterexample:
  "model cpu_ret = MODEL_80386
   \<and> seg_cpl (segCS cpu_ret) = 0 \<and> seg_cpl (segCS (fnRETF env_outer 0 cpu_ret)) = 3
   \<and> \<not> nullSelector (seg_sel (segFS cpu_ret)) \<and> seg_dpl (segFS cpu_ret) = 0
   \<and> js_and (seg_acc (segFS cpu_ret)) ACC_TYPE_CODE_CONFORMING \<noteq> ACC_TYPE_CODE_CONFORMING
   \<and> seg_sel (segFS (fnRETF env_outer 0 cpu_ret)) = 0x10
   \<and> \<not> nullSelector (seg_sel (segGS cpu_ret)) \<and> seg_dpl (segGS cpu_ret) = 0
   \<and> js_and (seg_acc (segGS cpu_ret)) ACC_TYPE_CODE_CONFORMING \<noteq> ACC_TYPE_CODE_CONFORMING
   \<and> seg_sel (segGS (fnRETF env_outer 0 cpu_ret)) = 0x18
   \<and> \<not> nullSelector (seg_sel (segDS cpu_ret_ldt0)) \<and> seg_dpl (segDS cpu_ret_ldt0) = 0
   \<and> js_and (seg_acc (segDS cpu_ret_ldt0)) ACC_TYPE_CODE_CONFORMING \<noteq> ACC_TYPE_CODE_CONFORMING
   \<and> seg_cpl (segCS (fnRETF env_outer 0 cpu_ret_ldt0)) = 3
   \<and> seg_sel (segDS (fnRETF env_outer 0 cpu_ret_ldt0)) = 0x04"
  by (simp add: fnRETF_def Let_def eval_ret nullSelector_def cpu_ret_ldt0_def js_or_def SEL_LDT_def)

section \<open>Rotates\<close>

subsection \<open>One step, and any number of steps\<close>








lemma idx_base: "i < w \<Longrightarrow> nat (int i mod int w) = i"
  by simp







subsection \<open>Shifts of the 32-bit operators, the flags that \<open>setRotateResult\<close> stores, and the closed forms\<close>













subsection \<open>The expressions of the helpers, bit by bit\<close>







subsection \<open>The expressions of the helpers are the iterated steps\<close>






subsection \<open>The eight helpers\<close>






















end
